theory Spec2Isabelle
  imports Complex_Main "HOL-Library.AList"
begin

section \<open>Hardware profile and configuration planner (managers/hardware)\<close>

text \<open>
  The TypeScript types \<^verbatim>\<open>AppleSiliconGeneration\<close> and \<^verbatim>\<open>AppleSiliconVariant\<close> are unions
  of string literals. At run time the values are plain strings (the generation is cast
  from a regular-expression group and can be any \<^verbatim>\<open>M\<close> followed by digits), so they are
  strings here.
  JavaScript numbers that only ever hold integers are \<^typ>\<open>int\<close>.
\<close>

type_synonym AppleSiliconGeneration = string
type_synonym AppleSiliconVariant = string

record Recommended =
  gpuLayers :: int
  cpuThreads :: int
  contextSize :: int
  maxModelSizeGB :: int
  batchSize :: int

text \<open>
  \<^verbatim>\<open>calculateOptimalSettings(totalMemoryGB, _gpuCores, performanceCores, generation, variant)\<close>.
  \<^verbatim>\<open>Math.floor(totalMemoryGB * 0.6)\<close> is written over the reals: for an integer total below
  \<open>2 ^ 50\<close> the double-precision product never rounds across an integer, so the floor of
  the double is the floor of the exact product.
\<close>

definition calculateOptimalSettings ::
  "int \<Rightarrow> int \<Rightarrow> int \<Rightarrow> AppleSiliconGeneration \<Rightarrow> AppleSiliconVariant \<Rightarrow> Recommended" where
  "calculateOptimalSettings totalGB gpuCoresUnused perfCores gen var =
    (let isHighEnd = (var = ''Max'' \<or> var = ''Ultra'');
         isM4Generation = (gen = ''M4'');
         layers =
           (if totalGB \<ge> 128 then 99
            else if totalGB \<ge> 96 then 80
            else if totalGB \<ge> 64 then 60
            else if totalGB \<ge> 32 then 40
            else if totalGB \<ge> 16 then 20
            else 4);
         threads = max 4 (perfCores - 2);
         ctx =
           (if totalGB \<ge> 128 then 131072
            else if totalGB \<ge> 96 then 65536
            else if totalGB \<ge> 64 then 32768
            else if totalGB \<ge> 32 then 16384
            else if totalGB \<ge> 16 then 8192
            else 4096);
         maxModel = \<lfloor>real_of_int totalGB * 0.6\<rfloor>;
         batch =
           (if isHighEnd \<and> isM4Generation then 2048
            else if isHighEnd then 1024
            else 512)
     in \<lparr> gpuLayers = layers, cpuThreads = threads, contextSize = ctx,
          maxModelSizeGB = maxModel, batchSize = batch \<rparr>)"

text \<open>
  The memory-tier table of the specification, written from its words: the batch-size
  column says 512 below 16 GB and, from 16 GB on, 2048 for a top variant of the latest
  generation and 1024 otherwise.
\<close>

definition spec_table_batchSize ::
  "int \<Rightarrow> AppleSiliconGeneration \<Rightarrow> AppleSiliconVariant \<Rightarrow> int" where
  "spec_table_batchSize totalGB gen var =
    (if totalGB < 16 then 512
     else if (var = ''Max'' \<or> var = ''Ultra'') \<and> gen = ''M4'' then 2048
     else 1024)"

subsection \<open>JavaScript string helpers used by the probes\<close>

text \<open>
  Strings are byte strings; \<^verbatim>\<open>String.prototype.trim\<close> and the regular-expression class
  \<^verbatim>\<open>\s\<close> are modelled on their ASCII members (tab, line feed, vertical tab, form feed,
  carriage return, space).
\<close>

definition isSpace :: "char \<Rightarrow> bool" where
  "isSpace c = (c \<in> set [CHR 0x09, CHR 0x0A, CHR 0x0B, CHR 0x0C, CHR 0x0D, CHR '' ''])"

definition isDigit :: "char \<Rightarrow> bool" where
  "isDigit c = (c \<in> set ''0123456789'')"

definition trim :: "string \<Rightarrow> string" where
  "trim s = rev (dropWhile isSpace (rev (dropWhile isSpace s)))"

definition startsWith :: "string \<Rightarrow> string \<Rightarrow> bool" where
  "startsWith s pre = (take (length pre) s = pre)"

definition digitsValue :: "string \<Rightarrow> int" where
  "digitsValue ds = foldl (\<lambda>a c. a * 10 + (int (of_char c) - 48)) 0 ds"

text \<open>
  \<^verbatim>\<open>parseInt(s, 10)\<close>: leading white space, an optional sign, then the longest run of
  decimal digits; \<open>None\<close> stands for \<^verbatim>\<open>NaN\<close> (no digit).
\<close>

definition parseInt :: "string \<Rightarrow> int option" where
  "parseInt s =
    (let t = dropWhile isSpace s;
         neg = (t \<noteq> [] \<and> hd t = CHR ''-'');
         u = (if t \<noteq> [] \<and> (hd t = CHR ''-'' \<or> hd t = CHR ''+'') then tl t else t);
         ds = takeWhile isDigit u
     in if ds = [] then None
        else Some (if neg then - digitsValue ds else digitsValue ds))"

text \<open>\<^verbatim>\<open>x || 0\<close> on the result of \<^verbatim>\<open>parseInt\<close>: \<^verbatim>\<open>NaN\<close> and 0 both give 0.\<close>

definition orZero :: "int option \<Rightarrow> int" where
  "orZero x = (case x of None \<Rightarrow> 0 | Some n \<Rightarrow> n)"

text \<open>
  \<^verbatim>\<open>cpuBrand.match(/Apple (M\d+)(?:\s+(Pro|Max|Ultra))?/)\<close>: the leftmost position where
  \<^verbatim>\<open>Apple M\<close> is followed by a digit; group 1 is \<^verbatim>\<open>M\<close> with the longest run of digits,
  group 2 is present when white space and then one of the three names follow.
\<close>

definition matchVariant :: "string \<Rightarrow> string option" where
  "matchVariant rest =
    (let r = dropWhile isSpace rest in
       if takeWhile isSpace rest = [] then None
       else if startsWith r ''Pro'' then Some ''Pro''
       else if startsWith r ''Max'' then Some ''Max''
       else if startsWith r ''Ultra'' then Some ''Ultra''
       else None)"

fun matchBrand :: "string \<Rightarrow> (string \<times> string option) option" where
  "matchBrand [] = None"
| "matchBrand (c # cs) =
    (let ds = takeWhile isDigit (drop 7 (c # cs)) in
       if startsWith (c # cs) ''Apple M'' \<and> ds \<noteq> []
       then Some (CHR ''M'' # ds, matchVariant (drop (7 + length ds) (c # cs)))
       else matchBrand cs)"

subsection \<open>Operating-system probes\<close>

text \<open>
  What \<^verbatim>\<open>os\<close> and \<^verbatim>\<open>child_process.execSync\<close> answer on the host. \<open>execSync cmd\<close> is
  the command's output, or \<open>None\<close> when \<^verbatim>\<open>execSync\<close> throws (command missing, non-zero
  exit). \<open>cpus\<close> lists the model string of every logical core.
\<close>

record OsProbes =
  platform :: string
  arch :: string
  cpus :: "string list"
  totalmem :: nat
  freemem :: nat
  execSync :: "string \<Rightarrow> string option"

record HardwareProfile =
  cpuModel :: string
  cpuCores :: int
  performanceCores :: int
  efficiencyCores :: int
  isAppleSilicon :: bool
  generation :: AppleSiliconGeneration
  variant :: AppleSiliconVariant
  gpuCores :: int
  neuralEngineCores :: int
  totalMemoryGB :: int
  availableMemoryGB :: int
  unifiedMemory :: bool
  recommended :: Recommended

definition GPU_CORES :: "(string \<times> (string \<times> int) list) list" where
  "GPU_CORES =
    [(''M1'', [(''base'', 8), (''Pro'', 16), (''Max'', 32), (''Ultra'', 64)]),
     (''M2'', [(''base'', 10), (''Pro'', 19), (''Max'', 38), (''Ultra'', 76)]),
     (''M3'', [(''base'', 10), (''Pro'', 18), (''Max'', 40), (''Ultra'', 80)]),
     (''M4'', [(''base'', 10), (''Pro'', 20), (''Max'', 40), (''Ultra'', 80)])]"

definition NEURAL_CORES :: "(string \<times> int) list" where
  "NEURAL_CORES = [(''M1'', 16), (''M2'', 16), (''M3'', 16), (''M4'', 16)]"

text \<open>The result of \<^verbatim>\<open>getAppleSiliconInfo\<close>: generation, variant, GPU cores, neural cores.\<close>

definition unknownSilicon :: "string \<times> string \<times> int \<times> int" where
  "unknownSilicon = (''unknown'', ''unknown'', 0, 0)"

definition getAppleSiliconInfo :: "OsProbes \<Rightarrow> string \<times> string \<times> int \<times> int" where
  "getAppleSiliconInfo os =
    (if platform os \<noteq> ''darwin'' \<or> arch os \<noteq> ''arm64'' then unknownSilicon
     else case execSync os ''sysctl -n machdep.cpu.brand_string'' of
       None \<Rightarrow> unknownSilicon
     | Some out \<Rightarrow>
        (case matchBrand (trim out) of
           None \<Rightarrow> unknownSilicon
         | Some (gen, v) \<Rightarrow>
            (let var = (case v of None \<Rightarrow> ''base'' | Some x \<Rightarrow> x);
                 gpu = (case map_of GPU_CORES gen of
                          None \<Rightarrow> 0
                        | Some row \<Rightarrow> (case map_of row var of None \<Rightarrow> 0 | Some n \<Rightarrow> n));
                 neural = (case map_of NEURAL_CORES gen of None \<Rightarrow> 0 | Some n \<Rightarrow> n)
             in (gen, var, gpu, neural))))"

text \<open>The result of \<^verbatim>\<open>getPerformanceAndEfficiencyCores\<close>: performance, efficiency.\<close>

definition getPerformanceAndEfficiencyCores :: "OsProbes \<Rightarrow> int \<times> int" where
  "getPerformanceAndEfficiencyCores os =
    (if platform os \<noteq> ''darwin'' then (int (length (cpus os)), 0)
     else case execSync os ''sysctl -n hw.perflevel0.physicalcpu'' of
       None \<Rightarrow> (int (length (cpus os)) div 2, int (length (cpus os)) div 2)
     | Some perfOut \<Rightarrow>
        (case execSync os ''sysctl -n hw.perflevel1.physicalcpu'' of
           None \<Rightarrow> (int (length (cpus os)) div 2, int (length (cpus os)) div 2)
         | Some effOut \<Rightarrow>
            (orZero (parseInt (trim perfOut)), orZero (parseInt (trim effOut)))))"

text \<open>
  \<^verbatim>\<open>Math.round(bytes / (1024 ** 3))\<close>: the byte count is below \<open>2 ^ 53\<close> and the divisor a
  power of two, so the quotient is exact and rounding half up is the integer division
  below.
\<close>

definition roundGB :: "nat \<Rightarrow> int" where
  "roundGB bytes = int ((bytes + 2 ^ 29) div 2 ^ 30)"

definition detectHardware :: "OsProbes \<Rightarrow> HardwareProfile" where
  "detectHardware os =
    (let totalGB = roundGB (totalmem os);
         availableGB = roundGB (freemem os);
         model = (case cpus os of [] \<Rightarrow> ''Unknown''
                  | m # _ \<Rightarrow> if m = [] then ''Unknown'' else m);
         cores = int (length (cpus os));
         silicon = (platform os = ''darwin'' \<and> arch os = ''arm64'');
         (gen, var, gpu, neural) = getAppleSiliconInfo os;
         (perf, eff) = getPerformanceAndEfficiencyCores os
     in \<lparr> cpuModel = model, cpuCores = cores, performanceCores = perf,
          efficiencyCores = eff, isAppleSilicon = silicon, generation = gen,
          variant = var, gpuCores = gpu, neuralEngineCores = neural,
          totalMemoryGB = totalGB, availableMemoryGB = availableGB,
          unifiedMemory = silicon,
          recommended = calculateOptimalSettings totalGB gpu perf gen var \<rparr>)"

text \<open>\<^verbatim>\<open>class HardwareManager\<close>: the cached profile, \<open>None\<close> for \<^verbatim>\<open>null\<close>.\<close>

record HardwareManager =
  profile :: "HardwareProfile option"

definition getProfile :: "OsProbes \<Rightarrow> HardwareManager \<Rightarrow> HardwareProfile \<times> HardwareManager" where
  "getProfile os hm =
    (case profile hm of
       None \<Rightarrow> (detectHardware os, hm\<lparr>profile := Some (detectHardware os)\<rparr>)
     | Some p \<Rightarrow> (p, hm))"

definition refresh :: "OsProbes \<Rightarrow> HardwareManager \<Rightarrow> HardwareProfile \<times> HardwareManager" where
  "refresh os hm = (detectHardware os, hm\<lparr>profile := Some (detectHardware os)\<rparr>)"

text \<open>Two example hosts: an eight-core Linux machine and an Intel Mac, both with 16 GiB.\<close>

definition linuxHost :: OsProbes where
  "linuxHost =
    \<lparr> platform = ''linux'', arch = ''x64'',
      cpus = replicate 8 ''AMD Ryzen 7'',
      totalmem = 17179869184, freemem = 8589934592,
      execSync = (\<lambda>cmd. None) \<rparr>"

definition intelMac :: OsProbes where
  "intelMac =
    \<lparr> platform = ''darwin'', arch = ''x64'',
      cpus = replicate 8 ''Intel(R) Core(TM) i9'',
      totalmem = 17179869184, freemem = 8589934592,
      execSync = (\<lambda>cmd. None) \<rparr>"

section \<open>The engine's output protocol: lines and JSON records\<close>

subsection \<open>\<^verbatim>\<open>String.prototype.split('\n')\<close>\<close>

text \<open>
  The pieces between line feeds, in order; a string without a line feed is one piece, and
  a trailing line feed leaves an empty last piece.
\<close>

fun splitNewline :: "string \<Rightarrow> string list" where
  "splitNewline [] = [[]]"
| "splitNewline (c # cs) =
    (if c = CHR 0x0A then [] # splitNewline cs
     else (case splitNewline cs of
             [] \<Rightarrow> [[c]]
           | piece # pieces \<Rightarrow> (c # piece) # pieces))"

subsection \<open>\<^verbatim>\<open>JSON.parse\<close>\<close>

text \<open>
  The values \<^verbatim>\<open>JSON.parse\<close> can return. A number keeps its lexeme: no claim needs its value.
  Strings are byte strings; an escape \<^verbatim>\<open>\uXXXX\<close> above 127 is stored as the UTF-8 bytes of
  the code unit.
\<close>

datatype json =
    JNull
  | JBool bool
  | JNumber string
  | JString string
  | JArray "json list"
  | JObject "(string \<times> json) list"

datatype token = TLBrace | TRBrace | TLBracket | TRBracket | TColon | TComma | TLit json

datatype lexmode =
    LIdle
  | LWord string
  | LStr string
  | LEsc string
  | LUni string string

definition isJsonSpace :: "char \<Rightarrow> bool" where
  "isJsonSpace c = (c \<in> set [CHR '' '', CHR 0x09, CHR 0x0A, CHR 0x0D])"

definition punctuation :: "char \<Rightarrow> token option" where
  "punctuation c =
    (if c = CHR ''{'' then Some TLBrace
     else if c = CHR ''}'' then Some TRBrace
     else if c = CHR ''['' then Some TLBracket
     else if c = CHR '']'' then Some TRBracket
     else if c = CHR '':'' then Some TColon
     else if c = CHR '','' then Some TComma
     else None)"

text \<open>The JSON number grammar: \<^verbatim>\<open>-? (0 | [1-9][0-9]*) (. [0-9]+)? ([eE] [+-]? [0-9]+)?\<close>.\<close>

definition validExponent :: "string \<Rightarrow> bool" where
  "validExponent r =
    (r = [] \<or>
     ((hd r = CHR ''e'' \<or> hd r = CHR ''E'') \<and>
      (let r1 = tl r;
           r2 = (if r1 \<noteq> [] \<and> (hd r1 = CHR ''+'' \<or> hd r1 = CHR ''-'') then tl r1 else r1)
       in r2 \<noteq> [] \<and> list_all isDigit r2)))"

definition validNumber :: "string \<Rightarrow> bool" where
  "validNumber w =
    (let a = (if w \<noteq> [] \<and> hd w = CHR ''-'' then tl w else w);
         ip = takeWhile isDigit a;
         r1 = dropWhile isDigit a
     in ip \<noteq> [] \<and> (length ip = 1 \<or> hd ip \<noteq> CHR ''0'') \<and>
        (if r1 \<noteq> [] \<and> hd r1 = CHR ''.''
         then takeWhile isDigit (tl r1) \<noteq> [] \<and> validExponent (dropWhile isDigit (tl r1))
         else validExponent r1))"

definition wordToken :: "string \<Rightarrow> token option" where
  "wordToken w =
    (if w = ''true'' then Some (TLit (JBool True))
     else if w = ''false'' then Some (TLit (JBool False))
     else if w = ''null'' then Some (TLit JNull)
     else if validNumber w then Some (TLit (JNumber w))
     else None)"

definition escapeChar :: "char \<Rightarrow> char option" where
  "escapeChar c =
    (if c = CHR 0x22 then Some (CHR 0x22)
     else if c = CHR 0x5C then Some (CHR 0x5C)
     else if c = CHR ''/'' then Some (CHR ''/'')
     else if c = CHR ''b'' then Some (CHR 0x08)
     else if c = CHR ''f'' then Some (CHR 0x0C)
     else if c = CHR ''n'' then Some (CHR 0x0A)
     else if c = CHR ''r'' then Some (CHR 0x0D)
     else if c = CHR ''t'' then Some (CHR 0x09)
     else None)"

definition hexValue :: "char \<Rightarrow> nat option" where
  "hexValue c =
    (if c \<in> set ''0123456789'' then Some (of_char c - 48)
     else if c \<in> set ''abcdef'' then Some (of_char c - 87)
     else if c \<in> set ''ABCDEF'' then Some (of_char c - 55)
     else None)"

definition hexNumber :: "string \<Rightarrow> nat" where
  "hexNumber hs = foldl (\<lambda>a c. a * 16 + (case hexValue c of None \<Rightarrow> 0 | Some d \<Rightarrow> d)) 0 hs"

definition utf8Unit :: "nat \<Rightarrow> string" where
  "utf8Unit n =
    (if n < 128 then [char_of n]
     else if n < 2048 then [char_of (192 + n div 64), char_of (128 + n mod 64)]
     else [char_of (224 + n div 4096), char_of (128 + (n div 64) mod 64),
           char_of (128 + n mod 64)])"

text \<open>
  The lexer reads the text once, left to right. The accumulators of a word, of a string
  and of the hexadecimal digits of a \<^verbatim>\<open>\u\<close> escape are kept reversed. A word is a maximal
  run of characters that are neither white space, punctuation nor a quote; it must be a
  literal or a number.
\<close>

fun lexJson :: "lexmode \<Rightarrow> token list \<Rightarrow> string \<Rightarrow> token list option" where
  "lexJson LIdle ts [] = Some (rev ts)"
| "lexJson (LWord w) ts [] =
    (case wordToken (rev w) of None \<Rightarrow> None | Some t \<Rightarrow> Some (rev (t # ts)))"
| "lexJson (LStr acc) ts [] = None"
| "lexJson (LEsc acc) ts [] = None"
| "lexJson (LUni acc hs) ts [] = None"
| "lexJson LIdle ts (c # cs) =
    (if isJsonSpace c then lexJson LIdle ts cs
     else if c = CHR 0x22 then lexJson (LStr []) ts cs
     else (case punctuation c of
             Some t \<Rightarrow> lexJson LIdle (t # ts) cs
           | None \<Rightarrow> lexJson (LWord [c]) ts cs))"
| "lexJson (LWord w) ts (c # cs) =
    (if isJsonSpace c \<or> c = CHR 0x22 \<or> punctuation c \<noteq> None
     then (case wordToken (rev w) of
             None \<Rightarrow> None
           | Some t \<Rightarrow>
              (if isJsonSpace c then lexJson LIdle (t # ts) cs
               else if c = CHR 0x22 then lexJson (LStr []) (t # ts) cs
               else (case punctuation c of
                       Some t' \<Rightarrow> lexJson LIdle (t' # t # ts) cs
                     | None \<Rightarrow> None)))
     else lexJson (LWord (c # w)) ts cs)"
| "lexJson (LStr acc) ts (c # cs) =
    (if c = CHR 0x22 then lexJson LIdle (TLit (JString (rev acc)) # ts) cs
     else if c = CHR 0x5C then lexJson (LEsc acc) ts cs
     else if (of_char c :: nat) < 32 then None
     else lexJson (LStr (c # acc)) ts cs)"
| "lexJson (LEsc acc) ts (c # cs) =
    (if c = CHR ''u'' then lexJson (LUni acc []) ts cs
     else (case escapeChar c of
             None \<Rightarrow> None
           | Some x \<Rightarrow> lexJson (LStr (x # acc)) ts cs))"
| "lexJson (LUni acc hs) ts (c # cs) =
    (if hexValue c = None then None
     else if length hs = 3
          then lexJson (LStr (rev (utf8Unit (hexNumber (rev (c # hs)))) @ acc)) ts cs
          else lexJson (LUni acc (c # hs)) ts cs)"

text \<open>
  The parser is a stack machine over the tokens. A frame is an open array with its
  elements so far, or an open object with its members so far and the key that waits for
  its value (both reversed).
\<close>

datatype frame = FArray "json list" | FObject "(string \<times> json) list" "string option"

datatype pmode = PValue | PValueOrClose | PKey | PKeyOrClose | PColon | PAfter | PDone json

definition afterValue :: "json \<Rightarrow> frame list \<Rightarrow> (frame list \<times> pmode) option" where
  "afterValue v st =
    (case st of
       [] \<Rightarrow> Some ([], PDone v)
     | FArray xs # r \<Rightarrow> Some (FArray (v # xs) # r, PAfter)
     | FObject kvs None # r \<Rightarrow> None
     | FObject kvs (Some k) # r \<Rightarrow> Some (FObject ((k, v) # kvs) None # r, PAfter))"

definition startValue :: "frame list \<Rightarrow> token \<Rightarrow> (frame list \<times> pmode) option" where
  "startValue st t =
    (case t of
       TLit v \<Rightarrow> afterValue v st
     | TLBracket \<Rightarrow> Some (FArray [] # st, PValueOrClose)
     | TLBrace \<Rightarrow> Some (FObject [] None # st, PKeyOrClose)
     | _ \<Rightarrow> None)"

definition closeArray :: "frame list \<Rightarrow> (frame list \<times> pmode) option" where
  "closeArray st =
    (case st of FArray xs # r \<Rightarrow> afterValue (JArray (rev xs)) r | _ \<Rightarrow> None)"

definition closeObject :: "frame list \<Rightarrow> (frame list \<times> pmode) option" where
  "closeObject st =
    (case st of FObject kvs None # r \<Rightarrow> afterValue (JObject (rev kvs)) r | _ \<Rightarrow> None)"

definition memberKey :: "frame list \<Rightarrow> token \<Rightarrow> (frame list \<times> pmode) option" where
  "memberKey st t =
    (case t of
       TLit (JString k) \<Rightarrow>
         (case st of FObject kvs None # r \<Rightarrow> Some (FObject kvs (Some k) # r, PColon)
          | _ \<Rightarrow> None)
     | _ \<Rightarrow> None)"

definition parseStep :: "frame list \<Rightarrow> pmode \<Rightarrow> token \<Rightarrow> (frame list \<times> pmode) option" where
  "parseStep st m t =
    (case m of
       PValue \<Rightarrow> startValue st t
     | PValueOrClose \<Rightarrow> (if t = TRBracket then closeArray st else startValue st t)
     | PKey \<Rightarrow> memberKey st t
     | PKeyOrClose \<Rightarrow> (if t = TRBrace then closeObject st else memberKey st t)
     | PColon \<Rightarrow> (if t = TColon then Some (st, PValue) else None)
     | PAfter \<Rightarrow>
        (case st of
           FArray xs # r \<Rightarrow>
             (if t = TComma then Some (st, PValue)
              else if t = TRBracket then closeArray st else None)
         | FObject kvs k # r \<Rightarrow>
             (if t = TComma then Some (st, PKey)
              else if t = TRBrace then closeObject st else None)
         | [] \<Rightarrow> None)
     | PDone v \<Rightarrow> None)"

fun parseTokens :: "frame list \<Rightarrow> pmode \<Rightarrow> token list \<Rightarrow> json option" where
  "parseTokens st m [] = (case m of PDone v \<Rightarrow> Some v | _ \<Rightarrow> None)"
| "parseTokens st m (t # ts) =
    (case parseStep st m t of
       None \<Rightarrow> None
     | Some (st', m') \<Rightarrow> parseTokens st' m' ts)"

text \<open>\<^verbatim>\<open>JSON.parse(text)\<close>: the value, or \<open>None\<close> when it throws a \<^verbatim>\<open>SyntaxError\<close>.\<close>

definition JSON_parse :: "string \<Rightarrow> json option" where
  "JSON_parse text =
    (case lexJson LIdle [] text of
       None \<Rightarrow> None
     | Some ts \<Rightarrow> parseTokens [] PValue ts)"

subsection \<open>The readiness test of one line\<close>

text \<open>
  \<^verbatim>\<open>x == 'HTTP server listening'\<close> for a parsed value \<open>x\<close>. The loose equality converts
  its left side: a string is compared as it is; an array is compared through its
  \<^verbatim>\<open>toString\<close>, the comma-joined strings of its elements, which can only be the sentinel
  (it has no comma) for a one-element array whose element itself converts to the
  sentinel; \<^verbatim>\<open>null\<close>, booleans, numbers and objects never compare equal to this text.
\<close>

fun looseEqSentinel :: "json \<Rightarrow> bool" where
  "looseEqSentinel (JString s) = (s = ''HTTP server listening'')"
| "looseEqSentinel (JArray [x]) = looseEqSentinel x"
| "looseEqSentinel v = False"

text \<open>
  The body of the \<^verbatim>\<open>try\<close> in the readiness handler, as a test of the line:
  \<^verbatim>\<open>JSON.parse(line)\<close> may throw, \<^verbatim>\<open>message.message\<close> throws on \<^verbatim>\<open>null\<close>, is the member of
  an object (the last one of that name) and \<^verbatim>\<open>undefined\<close> on every other value; every
  throw is caught and the line is skipped.
\<close>

definition readinessLine :: "string \<Rightarrow> bool" where
  "readinessLine line =
    (case JSON_parse line of
       None \<Rightarrow> False
     | Some parsed \<Rightarrow>
        (case parsed of
           JObject members \<Rightarrow>
             (case map_of (rev members) ''message'' of
                None \<Rightarrow> False
              | Some v \<Rightarrow> looseEqSentinel v)
         | _ \<Rightarrow> False))"

section \<open>The process supervisor (managers/llama-server)\<close>

subsection \<open>Launch options and the engine's command line\<close>

text \<open>
  \<^verbatim>\<open>type LaunchOptions\<close>. An optional field is an \<open>option\<close>; \<open>id_lo\<close> is the field
  \<^verbatim>\<open>id\<close>, and the three overrides that share a name with a field of the recommended
  configuration carry the same suffix.
\<close>

record LaunchOptions =
  id_lo :: string
  modelPath :: string
  multimodal :: "bool option"
  mmprojPath :: "string option"
  port :: "string option"
  contextSize_lo :: "int option"
  gpuLayers_lo :: "int option"
  threads :: "int option"
  batchSize_lo :: "int option"

text \<open>\<^verbatim>\<open>Number.prototype.toString\<close> on an integer: its decimal digits.\<close>

fun natDigits :: "nat \<Rightarrow> string" where
  "natDigits n =
    (if n < 10 then [''0123456789'' ! n]
     else natDigits (n div 10) @ [''0123456789'' ! (n mod 10)])"

declare natDigits.simps [simp del]

definition toString :: "int \<Rightarrow> string" where
  "toString n = (if n < 0 then CHR ''-'' # natDigits (nat (- n)) else natDigits (nat n))"

text \<open>\<^verbatim>\<open>override ?? recommended\<close>.\<close>

definition orElse :: "int option \<Rightarrow> int \<Rightarrow> int" where
  "orElse override dflt = (case override of None \<Rightarrow> dflt | Some n \<Rightarrow> n)"

text \<open>
  The array \<^verbatim>\<open>args\<close> of \<^verbatim>\<open>launchServer\<close>. \<^verbatim>\<open>if (multimodal && mmprojPath)\<close> and
  \<^verbatim>\<open>if (port)\<close> test truthiness: an absent field and the empty string both fail.
\<close>

definition launchArgs :: "LaunchOptions \<Rightarrow> HardwareProfile \<Rightarrow> string list" where
  "launchArgs opts prof =
    [''-m'', modelPath opts,
     ''-c'', toString (orElse (contextSize_lo opts) (contextSize (recommended prof))),
     ''-ngl'', toString (orElse (gpuLayers_lo opts) (gpuLayers (recommended prof))),
     ''-t'', toString (orElse (threads opts) (cpuThreads (recommended prof))),
     ''-b'', toString (orElse (batchSize_lo opts) (batchSize (recommended prof)))]
    @ (case mmprojPath opts of
         None \<Rightarrow> []
       | Some path \<Rightarrow>
          if multimodal opts = Some True \<and> path \<noteq> [] then [''--mmproj'', path] else [])
    @ (case port opts of
         None \<Rightarrow> []
       | Some p \<Rightarrow> if p \<noteq> [] then [''--port'', p] else [])"

subsection \<open>Promises, child processes and the manager's state\<close>

text \<open>
  The error \<^verbatim>\<open>execFile\<close> hands to its callback: the command failed, with the exit code
  (\<open>None\<close> for \<^verbatim>\<open>null\<close>) and the signal, or the output went beyond \<^verbatim>\<open>maxBuffer\<close>.
\<close>

datatype LaunchError = CommandFailed "int option" "string option" | MaxBufferExceeded

datatype Outcome = Pending | Resolved | Rejected LaunchError

text \<open>
  A promise object of the heap. One made by \<^verbatim>\<open>new Promise\<close> holds its own outcome. The
  promise an \<^verbatim>\<open>async\<close> function returns is a new object each call; it adopts the promise
  its body returned and settles as that one does.
\<close>

datatype Promise = Own Outcome | Adopts nat

text \<open>
  \<^verbatim>\<open>execFile\<close> is called without options, so its defaults hold: the encoding is UTF-8 and
  \<^verbatim>\<open>maxBuffer\<close> is \<open>1024 * 1024\<close> bytes for each of \<^verbatim>\<open>stdout\<close> and \<^verbatim>\<open>stderr\<close>.
\<close>

definition MAX_BUFFER :: nat where
  "MAX_BUFFER = 1024 * 1024"

text \<open>
  A \<^verbatim>\<open>ChildProcess\<close> with what the closures registered on it capture. Of
  \<^verbatim>\<open>launchServer\<close>: the options of the launch (and with them the id), the promise they
  settle, and whether the readiness \<^verbatim>\<open>handler\<close> is still subscribed to \<^verbatim>\<open>stdout\<close>. Of
  \<^verbatim>\<open>execFile\<close>: the bytes counted on each stream, the error it keeps for its callback, and
  whether it has destroyed the two streams. \<open>killSignals\<close> lists the signals sent by
  \<^verbatim>\<open>kill\<close>; \<open>exited\<close> is set once the \<^verbatim>\<open>close\<close> event has been delivered.
\<close>

record ChildProcess =
  args :: "string list"
  options :: LaunchOptions
  promise :: nat
  readyListener :: bool
  stdoutLen :: nat
  stderrLen :: nat
  execError :: "LaunchError option"
  stdioDestroyed :: bool
  killSignals :: "string list"
  exited :: bool

text \<open>
  \<^verbatim>\<open>class ElectronLlamaServerManager\<close>. The three \<^verbatim>\<open>Map\<close>s are association lists in
  insertion order; a map value is a reference: the index of the child process in
  \<open>children\<close>, of the promise in \<open>promises\<close>. \<open>hardware\<close> is the module's
  \<^verbatim>\<open>hardwareManager\<close>.
\<close>

record Manager =
  launchOptions :: "(string \<times> LaunchOptions) list"
  processes :: "(string \<times> nat) list"
  loading :: "(string \<times> nat) list"
  promises :: "Promise list"
  children :: "ChildProcess list"
  hardware :: HardwareManager

definition emptyManager :: Manager where
  "emptyManager =
    \<lparr> launchOptions = [], processes = [], loading = [], promises = [], children = [],
      hardware = \<lparr>profile = None\<rparr> \<rparr>"

text \<open>Settling a promise: only a pending promise changes.\<close>

definition resolve :: "nat \<Rightarrow> Promise list \<Rightarrow> Promise list" where
  "resolve p ps =
    (if p < length ps \<and> ps ! p = Own Pending then ps[p := Own Resolved] else ps)"

definition reject :: "nat \<Rightarrow> LaunchError \<Rightarrow> Promise list \<Rightarrow> Promise list" where
  "reject p e ps =
    (if p < length ps \<and> ps ! p = Own Pending then ps[p := Own (Rejected e)] else ps)"

text \<open>
  What a caller that awaits the promise \<open>r\<close> observes in a state: the promise's own
  outcome, or the outcome of the promise it adopts.
\<close>

definition outcome :: "Manager \<Rightarrow> nat \<Rightarrow> Outcome" where
  "outcome m r =
    (if r < length (promises m)
     then (case promises m ! r of
             Own x \<Rightarrow> x
           | Adopts q \<Rightarrow>
              (if q < length (promises m)
               then (case promises m ! q of Own y \<Rightarrow> y | Adopts q' \<Rightarrow> Pending)
               else Pending))
     else Pending)"

subsection \<open>\<^verbatim>\<open>launchServer\<close>\<close>

text \<open>
  The \<^verbatim>\<open>return\<close> of the \<^verbatim>\<open>async\<close> function: a new promise that adopts the returned one.
\<close>

definition asyncReturn :: "nat \<Rightarrow> Manager \<Rightarrow> nat \<times> Manager" where
  "asyncReturn p m = (length (promises m), m\<lparr>promises := promises m @ [Adopts p]\<rparr>)"

text \<open>
  The result is the promise the caller receives and the manager afterwards. The hardware
  profile is read through the cache of the hardware manager. The executor of the new
  promise runs at once: \<^verbatim>\<open>execFile\<close> starts the child, \<^verbatim>\<open>handler\<close> is subscribed,
  \<^verbatim>\<open>handleProcess\<close> records the child; then the promise is recorded as in flight.
\<close>

definition launchServer :: "OsProbes \<Rightarrow> LaunchOptions \<Rightarrow> Manager \<Rightarrow> nat \<times> Manager" where
  "launchServer os opts m =
    (case map_of (loading m) (id_lo opts) of
       Some inFlight \<Rightarrow> asyncReturn inFlight m
     | None \<Rightarrow>
        (let (prof, hw) = getProfile os (hardware m);
             p = length (promises m);
             h = length (children m);
             child = \<lparr> args = launchArgs opts prof, options = opts, promise = p,
                       readyListener = True, stdoutLen = 0, stderrLen = 0,
                       execError = None, stdioDestroyed = False,
                       killSignals = [], exited = False \<rparr>
         in asyncReturn p
              (m\<lparr> hardware := hw,
                  promises := promises m @ [Own Pending],
                  children := children m @ [child],
                  processes := AList.update (id_lo opts) h (processes m),
                  loading := AList.update (id_lo opts) p (loading m) \<rparr>)))"

subsection \<open>\<^verbatim>\<open>process.kill\<close>\<close>

text \<open>
  \<^verbatim>\<open>process.kill(signal)\<close>: the signal is sent and the result is \<^verbatim>\<open>true\<close> while the
  process has not exited, \<^verbatim>\<open>false\<close> afterwards.
\<close>

definition kill :: "string \<Rightarrow> ChildProcess \<Rightarrow> bool \<times> ChildProcess" where
  "kill sig c =
    (if exited c then (False, c) else (True, c\<lparr>killSignals := killSignals c @ [sig]\<rparr>))"

subsection \<open>The listeners of \<^verbatim>\<open>execFile\<close> on the output streams\<close>

text \<open>
  \<^verbatim>\<open>execFile\<close> subscribes to both streams before it returns the child, so its listeners
  run first. Each counts the bytes of the chunk; when the count of its stream goes beyond
  \<^verbatim>\<open>maxBuffer\<close> it keeps the error for the callback, destroys both streams and sends the
  kill signal \<^verbatim>\<open>SIGTERM\<close>. A string is a byte string here, so its length is its byte
  count.
\<close>

definition execFileKill :: "ChildProcess \<Rightarrow> ChildProcess" where
  "execFileKill c = snd (kill ''SIGTERM'' (c\<lparr>stdioDestroyed := True\<rparr>))"

definition onChildStdout :: "nat \<Rightarrow> string \<Rightarrow> Manager \<Rightarrow> Manager" where
  "onChildStdout h data m =
    (let c = children m ! h;
         n = stdoutLen c + length data
     in if n > MAX_BUFFER
        then m\<lparr>children := (children m)
                 [h := execFileKill (c\<lparr>stdoutLen := n, execError := Some MaxBufferExceeded\<rparr>)]\<rparr>
        else m\<lparr>children := (children m)[h := c\<lparr>stdoutLen := n\<rparr>]\<rparr>)"

definition onChildStderr :: "nat \<Rightarrow> string \<Rightarrow> Manager \<Rightarrow> Manager" where
  "onChildStderr h data m =
    (let c = children m ! h;
         n = stderrLen c + length data
     in if n > MAX_BUFFER
        then m\<lparr>children := (children m)
                 [h := execFileKill (c\<lparr>stderrLen := n, execError := Some MaxBufferExceeded\<rparr>)]\<rparr>
        else m\<lparr>children := (children m)[h := c\<lparr>stderrLen := n\<rparr>]\<rparr>)"

subsection \<open>The readiness handler on \<^verbatim>\<open>stdout\<close>\<close>

text \<open>
  What the handler does once a line passes the test: it unsubscribes itself, retains the
  options under the id and resolves the promise.
\<close>

definition markReady :: "nat \<Rightarrow> Manager \<Rightarrow> Manager" where
  "markReady h m =
    (let c = children m ! h in
       m\<lparr> children := (children m)[h := c\<lparr>readyListener := False\<rparr>],
          launchOptions := AList.update (id_lo (options c)) (options c) (launchOptions m),
          promises := resolve (promise c) (promises m) \<rparr>)"

definition handlerLine :: "nat \<Rightarrow> Manager \<Rightarrow> string \<Rightarrow> Manager" where
  "handlerLine h m line =
    (if line = [] then m
     else if readinessLine line then markReady h m
     else m)"

text \<open>\<^verbatim>\<open>handler(data)\<close>: the chunk is split at line feeds and every piece handled in order.\<close>

definition handler :: "nat \<Rightarrow> string \<Rightarrow> Manager \<Rightarrow> Manager" where
  "handler h data m = foldl (handlerLine h) m (splitNewline data)"

text \<open>
  A \<^verbatim>\<open>data\<close> event of the child's \<^verbatim>\<open>stdout\<close>. The listeners subscribed when the event is
  emitted run in the order of their subscription, each on the whole chunk: the one of
  \<^verbatim>\<open>execFile\<close>, then \<^verbatim>\<open>handler\<close> if it is still subscribed. The third listener, of
  \<^verbatim>\<open>handleProcess\<close>, only writes to the console and is left out. A closed process and a
  destroyed stream emit no data.
\<close>

definition stdoutData :: "nat \<Rightarrow> string \<Rightarrow> Manager \<Rightarrow> Manager" where
  "stdoutData h data m =
    (if h < length (children m) \<and> \<not> exited (children m ! h)
        \<and> \<not> stdioDestroyed (children m ! h)
     then (if readyListener (children m ! h)
           then handler h data (onChildStdout h data m)
           else onChildStdout h data m)
     else m)"

text \<open>A \<^verbatim>\<open>data\<close> event of the child's \<^verbatim>\<open>stderr\<close>: only \<^verbatim>\<open>execFile\<close> listens.\<close>

definition stderrData :: "nat \<Rightarrow> string \<Rightarrow> Manager \<Rightarrow> Manager" where
  "stderrData h data m =
    (if h < length (children m) \<and> \<not> exited (children m ! h)
        \<and> \<not> stdioDestroyed (children m ! h)
     then onChildStderr h data m
     else m)"

subsection \<open>The \<^verbatim>\<open>close\<close> event\<close>

text \<open>
  \<^verbatim>\<open>execFile\<close> calls its callback from its own \<^verbatim>\<open>close\<close> listener, registered before the
  one of \<^verbatim>\<open>handleProcess\<close>: with the error it has kept, if any; else without an error
  when the exit code is 0 and there is no signal, and with an error that carries both
  otherwise.
\<close>

definition exitError :: "int option \<Rightarrow> string option \<Rightarrow> LaunchError option" where
  "exitError code signal =
    (if code = Some 0 \<and> signal = None then None else Some (CommandFailed code signal))"

definition exithandlerError ::
  "ChildProcess \<Rightarrow> int option \<Rightarrow> string option \<Rightarrow> LaunchError option" where
  "exithandlerError c code signal =
    (case execError c of Some e \<Rightarrow> Some e | None \<Rightarrow> exitError code signal)"

text \<open>The callback given to \<^verbatim>\<open>execFile\<close>: \<^verbatim>\<open>if (err) { reject(err); return }\<close>.\<close>

definition execFileCallback :: "nat \<Rightarrow> LaunchError option \<Rightarrow> Manager \<Rightarrow> Manager" where
  "execFileCallback h err m =
    (case err of
       Some e \<Rightarrow> m\<lparr>promises := reject (promise (children m ! h)) e (promises m)\<rparr>
     | None \<Rightarrow> m)"

text \<open>The \<^verbatim>\<open>close\<close> listener of \<^verbatim>\<open>handleProcess\<close>.\<close>

definition closeHandler ::
  "OsProbes \<Rightarrow> nat \<Rightarrow> int option \<Rightarrow> string option \<Rightarrow> Manager \<Rightarrow> Manager" where
  "closeHandler os h code signal m =
    (let i = id_lo (options (children m ! h));
         m1 = m\<lparr> processes := AList.delete i (processes m),
                 loading := AList.delete i (loading m) \<rparr>
     in if signal = Some ''SIGSEGV''
        then (case map_of (launchOptions m1) i of
                Some retained \<Rightarrow> snd (launchServer os retained m1)
              | None \<Rightarrow> m1)
        else m1)"

text \<open>The \<^verbatim>\<open>close\<close> event of a child, delivered once: both listeners in order.\<close>

definition processClose ::
  "OsProbes \<Rightarrow> nat \<Rightarrow> int option \<Rightarrow> string option \<Rightarrow> Manager \<Rightarrow> Manager" where
  "processClose os h code signal m =
    (if h < length (children m) \<and> \<not> exited (children m ! h)
     then closeHandler os h code signal
            (execFileCallback h (exithandlerError (children m ! h) code signal)
               (m\<lparr>children := (children m)[h := (children m ! h)\<lparr>exited := True\<rparr>]\<rparr>))
     else m)"

subsection \<open>\<^verbatim>\<open>cleanupProcess\<close> and \<^verbatim>\<open>close\<close>\<close>

definition cleanupProcess :: "string \<Rightarrow> Manager \<Rightarrow> Manager" where
  "cleanupProcess i m =
    (case map_of (processes m) i of
       None \<Rightarrow> m
     | Some h \<Rightarrow>
        (let (killed, c1) = kill ''SIGTERM'' (children m ! h);
             c2 = (if \<not> killed then snd (kill ''SIGKILL'' c1) else c1)
         in m\<lparr> children := (children m)[h := c2],
               processes := AList.delete i (processes m),
               loading := AList.delete i (loading m) \<rparr>))"

definition closeAll :: "Manager \<Rightarrow> Manager" where
  "closeAll m =
    m\<lparr> children := foldl (\<lambda>cs h. cs[h := snd (kill ''SIGTERM'' (cs ! h))])
                      (children m) (map snd (processes m)),
       processes := [],
       loading := [] \<rparr>"

subsection \<open>The query operations\<close>

text \<open>
  A request of \<^verbatim>\<open>fetch\<close>, and the network as a function from the request to the body of
  the response (\<open>None\<close> when the transport fails).
\<close>

record Request =
  url :: string
  httpMethod :: string
  contentType :: "string option"
  body :: "string option"

datatype QueryError = FetchFailed | InvalidJson | TypeError

text \<open>A property read \<^verbatim>\<open>data.name\<close> on a parsed value that is not \<^verbatim>\<open>null\<close>.\<close>

definition member :: "json \<Rightarrow> string \<Rightarrow> json option" where
  "member v name = (case v of JObject ms \<Rightarrow> map_of (rev ms) name | _ \<Rightarrow> None)"

definition getModelParametersRequest :: "Manager \<Rightarrow> Request" where
  "getModelParametersRequest m =
    \<lparr> url = ''http://127.0.0.1:8080/model.json'', httpMethod = ''GET'',
      contentType = None, body = None \<rparr>"

definition getModelParameters ::
  "(Request \<Rightarrow> string option) \<Rightarrow> Manager \<Rightarrow> QueryError + (json option \<times> json option)" where
  "getModelParameters net m =
    (case net (getModelParametersRequest m) of
       None \<Rightarrow> Inl FetchFailed
     | Some text \<Rightarrow>
        (case JSON_parse text of
           None \<Rightarrow> Inl InvalidJson
         | Some JNull \<Rightarrow> Inl TypeError
         | Some d \<Rightarrow> Inr (member d ''n_ctx'', member d ''model'')))"

text \<open>\<^verbatim>\<open>JSON.stringify({ content })\<close>: the string is quoted with the JSON escapes.\<close>

definition quoteChar :: "char \<Rightarrow> string" where
  "quoteChar c =
    (if c = CHR 0x22 then [CHR 0x5C, CHR 0x22]
     else if c = CHR 0x5C then [CHR 0x5C, CHR 0x5C]
     else if c = CHR 0x08 then [CHR 0x5C, CHR ''b'']
     else if c = CHR 0x0C then [CHR 0x5C, CHR ''f'']
     else if c = CHR 0x0A then [CHR 0x5C, CHR ''n'']
     else if c = CHR 0x0D then [CHR 0x5C, CHR ''r'']
     else if c = CHR 0x09 then [CHR 0x5C, CHR ''t'']
     else if (of_char c :: nat) < 32
          then [CHR 0x5C, CHR ''u'', CHR ''0'', CHR ''0'',
                ''0123456789abcdef'' ! (of_char c div 16),
                ''0123456789abcdef'' ! (of_char c mod 16)]
          else [c])"

definition stringifyContent :: "string \<Rightarrow> string" where
  "stringifyContent content =
    [CHR ''{'', CHR 0x22] @ ''content'' @ [CHR 0x22, CHR '':'', CHR 0x22]
      @ concat (map quoteChar content) @ [CHR 0x22, CHR ''}'']"

definition encodeRequest :: "Manager \<Rightarrow> string \<Rightarrow> Request" where
  "encodeRequest m content =
    \<lparr> url = ''http://127.0.0.1:8080/tokenize'', httpMethod = ''POST'',
      contentType = Some ''application/json'', body = Some (stringifyContent content) \<rparr>"

definition encode ::
  "(Request \<Rightarrow> string option) \<Rightarrow> Manager \<Rightarrow> string \<Rightarrow> QueryError + json option" where
  "encode net m content =
    (case net (encodeRequest m content) of
       None \<Rightarrow> Inl FetchFailed
     | Some text \<Rightarrow>
        (case JSON_parse text of
           None \<Rightarrow> Inl InvalidJson
         | Some JNull \<Rightarrow> Inl TypeError
         | Some d \<Rightarrow> Inr (member d ''tokens'')))"

subsection \<open>Runs of the supervisor\<close>

text \<open>A chunk passes when one of its non-empty pieces passes the readiness test.\<close>

definition chunkReady :: "string \<Rightarrow> bool" where
  "chunkReady data = list_ex (\<lambda>line. line \<noteq> [] \<and> readinessLine line) (splitNewline data)"

text \<open>The \<^verbatim>\<open>data\<close> events of one child's \<^verbatim>\<open>stdout\<close>, in the order of arrival.\<close>

definition feed :: "nat \<Rightarrow> string list \<Rightarrow> Manager \<Rightarrow> Manager" where
  "feed h chunks m = foldl (\<lambda>s data. stdoutData h data s) m chunks"

text \<open>
  The chunks of a stream that reach its listeners when \<open>n\<close> bytes have been counted
  before: all up to and with the first one that takes the count beyond \<^verbatim>\<open>maxBuffer\<close>.
\<close>

fun delivered :: "nat \<Rightarrow> string list \<Rightarrow> string list" where
  "delivered n [] = []"
| "delivered n (d # ds) =
    (if n + length d > MAX_BUFFER then [d] else d # delivered (n + length d) ds)"

text \<open>What the listener of \<^verbatim>\<open>execFile\<close> alone does to the state over the same events.\<close>

fun counted :: "nat \<Rightarrow> string list \<Rightarrow> Manager \<Rightarrow> Manager" where
  "counted h [] m = m"
| "counted h (d # ds) m =
    (if stdioDestroyed (children m ! h) then m else counted h ds (onChildStdout h d m))"

text \<open>
  The promise \<open>p\<close> exists and holds an outcome of its own; the promise \<open>r\<close> adopts such
  a promise \<open>p\<close>; every in-flight entry is such a promise.
\<close>

definition ownAt :: "Promise list \<Rightarrow> nat \<Rightarrow> bool" where
  "ownAt ps p = (p < length ps \<and> (case ps ! p of Own x \<Rightarrow> True | Adopts q \<Rightarrow> False))"

definition adoptsOwn :: "Promise list \<Rightarrow> nat \<Rightarrow> nat \<Rightarrow> bool" where
  "adoptsOwn ps r p = (r < length ps \<and> ps ! r = Adopts p \<and> ownAt ps p)"

definition loadingOwn :: "Manager \<Rightarrow> bool" where
  "loadingOwn m = list_all (\<lambda>(k, p). ownAt (promises m) p) (loading m)"

text \<open>The calls of the public operations and the events of the child processes.\<close>

datatype Event =
    Launch LaunchOptions
  | StdoutData nat string
  | StderrData nat string
  | ProcessClose nat "int option" "string option"
  | Cleanup string
  | CloseAll

fun step :: "OsProbes \<Rightarrow> Event \<Rightarrow> Manager \<Rightarrow> Manager" where
  "step os (Launch opts) m = snd (launchServer os opts m)"
| "step os (StdoutData h chunk) m = stdoutData h chunk m"
| "step os (StderrData h chunk) m = stderrData h chunk m"
| "step os (ProcessClose h code signal) m = processClose os h code signal m"
| "step os (Cleanup i) m = cleanupProcess i m"
| "step os CloseAll m = closeAll m"

definition run :: "OsProbes \<Rightarrow> Event list \<Rightarrow> Manager \<Rightarrow> Manager" where
  "run os events m = foldl (\<lambda>s e. step os e s) m events"

text \<open>
  The states of the manager: it starts empty, and each step is a call of a public
  operation or an event of a child process.
\<close>

inductive reachable :: "OsProbes \<Rightarrow> Manager \<Rightarrow> bool" for os :: OsProbes where
  start: "reachable os emptyManager"
| launch: "reachable os m \<Longrightarrow> reachable os (snd (launchServer os opts m))"
| data: "reachable os m \<Longrightarrow> reachable os (stdoutData h chunk m)"
| errdata: "reachable os m \<Longrightarrow> reachable os (stderrData h chunk m)"
| closed: "reachable os m \<Longrightarrow> reachable os (processClose os h code signal m)"
| cleanup: "reachable os m \<Longrightarrow> reachable os (cleanupProcess i m)"
| shutdown: "reachable os m \<Longrightarrow> reachable os (closeAll m)"


subsection \<open>Example inputs\<close>

definition sessionA :: LaunchOptions where
  "sessionA =
    \<lparr> id_lo = ''a'', modelPath = ''/models/llama.gguf'', multimodal = None,
      mmprojPath = None, port = Some ''9090'', contextSize_lo = None,
      gpuLayers_lo = None, threads = None, batchSize_lo = None \<rparr>"

definition sentinelLine :: string where
  "sentinelLine =
    [CHR ''{'', CHR 0x22] @ ''message'' @ [CHR 0x22, CHR '':'', CHR 0x22]
      @ ''HTTP server listening'' @ [CHR 0x22, CHR ''}'']"

text \<open>
  The sentinel line cut after its first 20 characters, the second part with the line
  feed that ends the line.
\<close>

definition sentinelHead :: string where
  "sentinelHead = take 20 sentinelLine"

definition sentinelTail :: string where
  "sentinelTail = drop 20 sentinelLine @ [CHR 0x0A]"

text \<open>
  Session \<open>a\<close> launched on the Linux host: the promise its caller holds and the state;
  and the state once the sentinel has arrived.
\<close>

definition callerA :: nat where
  "callerA = fst (launchServer linuxHost sessionA emptyManager)"

definition launchedA :: Manager where
  "launchedA = snd (launchServer linuxHost sessionA emptyManager)"

definition readyA :: Manager where
  "readyA = stdoutData 0 (sentinelLine @ [CHR 0x0A]) launchedA"

text \<open>A chunk of 1023 letters and a line feed, that does not parse as a record.\<close>

definition noiseChunk :: string where
  "noiseChunk = replicate 1023 (CHR ''x'') @ [CHR 0x0A]"

section \<open>Properties of the configuration planner\<close>

lemma floor_six_tenths: "\<lfloor>real_of_int t * 0.6\<rfloor> = (t * 3) div 5"
proof -
  have "real_of_int t * 0.6 = real_of_int (t * 3) / real_of_int 5"
    by simp
  then show ?thesis
    by (simp only: floor_divide_of_int_eq)
qed

lemma floor_six_tenths_mono:
  "a \<le> b \<Longrightarrow> \<lfloor>real_of_int a * 0.6\<rfloor> \<le> \<lfloor>real_of_int b * 0.6\<rfloor>"
  by (rule floor_mono) simp

text \<open>
  Claim C4. For every total memory, GPU core count, performance-core count, generation
  and variant, the planner returns the tabulated GPU-layer count and context window of
  the memory tier (128 and more: 99 and 131072; 96 to 127: 80 and 65536; 64 to 95: 60 and
  32768; 32 to 63: 40 and 16384; 16 to 31: 20 and 8192; below 16: 4 and 4096), the worker
  thread count is the larger of 4 and the performance-core count minus 2, and the maximum
  model size is the floor of 0.6 times the total memory. The boundary pair 127 and 128
  falls into adjacent tiers.
\<close>

theorem C4_planner_table:
  fixes t g p :: int
  shows "(gpuLayers (calculateOptimalSettings t g p gen var),
          contextSize (calculateOptimalSettings t g p gen var)) =
           (if 128 \<le> t then (99, 131072)
            else if 96 \<le> t then (80, 65536)
            else if 64 \<le> t then (60, 32768)
            else if 32 \<le> t then (40, 16384)
            else if 16 \<le> t then (20, 8192)
            else (4, 4096))
         \<and> cpuThreads (calculateOptimalSettings t g p gen var) = max 4 (p - 2)
         \<and> maxModelSizeGB (calculateOptimalSettings t g p gen var) = \<lfloor>0.6 * real_of_int t\<rfloor>
         \<and> (gpuLayers (calculateOptimalSettings 127 g p gen var),
            contextSize (calculateOptimalSettings 127 g p gen var)) = (80, 65536)
         \<and> (gpuLayers (calculateOptimalSettings 128 g p gen var),
            contextSize (calculateOptimalSettings 128 g p gen var)) = (99, 131072)"
proof -
  have tier: "(gpuLayers (calculateOptimalSettings m g p gen var),
               contextSize (calculateOptimalSettings m g p gen var)) =
           (if 128 \<le> m then (99, 131072)
            else if 96 \<le> m then (80, 65536)
            else if 64 \<le> m then (60, 32768)
            else if 32 \<le> m then (40, 16384)
            else if 16 \<le> m then (20, 8192)
            else (4, 4096))" for m :: int
    by (simp add: calculateOptimalSettings_def Let_def)
  have threads: "cpuThreads (calculateOptimalSettings t g p gen var) = max 4 (p - 2)"
    by (simp add: calculateOptimalSettings_def Let_def)
  have model: "maxModelSizeGB (calculateOptimalSettings t g p gen var) = \<lfloor>0.6 * real_of_int t\<rfloor>"
    by (simp add: calculateOptimalSettings_def Let_def mult.commute)
  show ?thesis
    using tier [of t] tier [of 127] tier [of 128] threads model by simp
qed

text \<open>
  Claim C5, as the specification states it, fails: a base-variant M2 with 16 GB gets the
  batch size 512 from the planner, where the table of the specification gives 1024.
\<close>

theorem C5_batch_table_counterexample:
  "batchSize (calculateOptimalSettings 16 10 4 ''M2'' ''base'')
     \<noteq> spec_table_batchSize 16 ''M2'' ''base''"
  by (simp add: calculateOptimalSettings_def spec_table_batchSize_def Let_def)

text \<open>
  Claim C5, amended. The recommended batch size is decided by the chip alone, at every
  total memory: 2048 for a Max or Ultra variant of generation M4, 1024 for a Max or
  Ultra variant of any other generation, 512 for every other variant. It agrees with the
  table of the specification exactly when the memory is below 16 GB on a chip that is
  not Max or Ultra, or at least 16 GB on a chip that is.
\<close>

theorem C5_batch_by_chip:
  fixes t g p :: int
  shows "batchSize (calculateOptimalSettings t g p gen var) =
           (if (var = ''Max'' \<or> var = ''Ultra'') \<and> gen = ''M4'' then 2048
            else if var = ''Max'' \<or> var = ''Ultra'' then 1024
            else 512)
         \<and> (batchSize (calculateOptimalSettings t g p gen var) = spec_table_batchSize t gen var
              \<longleftrightarrow> ((t < 16) = (\<not> (var = ''Max'' \<or> var = ''Ultra''))))"
  by (simp add: calculateOptimalSettings_def spec_table_batchSize_def Let_def)

text \<open>
  Claim C8. Two planner inputs that differ only in total memory: with the larger total
  memory each recommended value (GPU layers, context size, batch size, maximum model
  size, CPU threads) is at least the value recommended for the smaller one.
\<close>

theorem C8_monotone_in_memory:
  fixes t1 t2 g p :: int
  assumes "t1 \<le> t2"
  shows "gpuLayers (calculateOptimalSettings t1 g p gen var)
           \<le> gpuLayers (calculateOptimalSettings t2 g p gen var)
         \<and> contextSize (calculateOptimalSettings t1 g p gen var)
           \<le> contextSize (calculateOptimalSettings t2 g p gen var)
         \<and> batchSize (calculateOptimalSettings t1 g p gen var)
           \<le> batchSize (calculateOptimalSettings t2 g p gen var)
         \<and> maxModelSizeGB (calculateOptimalSettings t1 g p gen var)
           \<le> maxModelSizeGB (calculateOptimalSettings t2 g p gen var)
         \<and> cpuThreads (calculateOptimalSettings t1 g p gen var)
           \<le> cpuThreads (calculateOptimalSettings t2 g p gen var)"
proof -
  have layers: "gpuLayers (calculateOptimalSettings t1 g p gen var)
                  \<le> gpuLayers (calculateOptimalSettings t2 g p gen var)"
    using assms by (simp add: calculateOptimalSettings_def Let_def)
  have ctx: "contextSize (calculateOptimalSettings t1 g p gen var)
               \<le> contextSize (calculateOptimalSettings t2 g p gen var)"
    using assms by (simp add: calculateOptimalSettings_def Let_def)
  have batch: "batchSize (calculateOptimalSettings t1 g p gen var)
                 = batchSize (calculateOptimalSettings t2 g p gen var)"
    by (simp add: calculateOptimalSettings_def Let_def)
  have model: "maxModelSizeGB (calculateOptimalSettings t1 g p gen var)
                 \<le> maxModelSizeGB (calculateOptimalSettings t2 g p gen var)"
    using floor_six_tenths_mono [OF assms]
    by (simp add: calculateOptimalSettings_def Let_def)
  have threads: "cpuThreads (calculateOptimalSettings t1 g p gen var)
                   = cpuThreads (calculateOptimalSettings t2 g p gen var)"
    by (simp add: calculateOptimalSettings_def Let_def)
  from layers ctx batch model threads show ?thesis by simp
qed

theorem C8_monotone_witness:
  "(16::int) \<le> 128
   \<and> gpuLayers (calculateOptimalSettings 16 40 12 ''M4'' ''Max'') = 20
   \<and> gpuLayers (calculateOptimalSettings 128 40 12 ''M4'' ''Max'') = 99
   \<and> contextSize (calculateOptimalSettings 16 40 12 ''M4'' ''Max'')
       \<le> contextSize (calculateOptimalSettings 128 40 12 ''M4'' ''Max'')
   \<and> maxModelSizeGB (calculateOptimalSettings 16 40 12 ''M4'' ''Max'')
       \<le> maxModelSizeGB (calculateOptimalSettings 128 40 12 ''M4'' ''Max'')"
proof -
  have h: "(16::int) \<le> 128" by simp
  have v: "gpuLayers (calculateOptimalSettings 16 40 12 ''M4'' ''Max'') = 20
           \<and> gpuLayers (calculateOptimalSettings 128 40 12 ''M4'' ''Max'') = 99"
    by (simp add: calculateOptimalSettings_def Let_def)
  from h v C8_monotone_in_memory [OF h, of 40 12 "''M4''" "''Max''"]
  show ?thesis by simp
qed

section \<open>Properties of hardware detection\<close>

lemma detectHardware_cores:
  "performanceCores (detectHardware os) = fst (getPerformanceAndEfficiencyCores os)"
  "efficiencyCores (detectHardware os) = snd (getPerformanceAndEfficiencyCores os)"
  by (simp_all add: detectHardware_def Let_def split_def)

lemma detectHardware_silicon:
  "generation (detectHardware os) = fst (getAppleSiliconInfo os)"
  "variant (detectHardware os) = fst (snd (getAppleSiliconInfo os))"
  "gpuCores (detectHardware os) = fst (snd (snd (getAppleSiliconInfo os)))"
  "neuralEngineCores (detectHardware os) = snd (snd (snd (getAppleSiliconInfo os)))"
  by (simp_all add: detectHardware_def Let_def split_def)

lemma detectHardware_flags:
  "unifiedMemory (detectHardware os) = (platform os = ''darwin'' \<and> arch os = ''arm64'')
   \<and> isAppleSilicon (detectHardware os) = unifiedMemory (detectHardware os)
   \<and> cpuCores (detectHardware os) = int (length (cpus os))"
  by (simp add: detectHardware_def Let_def split_def)

lemma detectHardware_recommended:
  "recommended (detectHardware os) =
     calculateOptimalSettings (totalMemoryGB (detectHardware os)) (gpuCores (detectHardware os))
       (performanceCores (detectHardware os)) (generation (detectHardware os))
       (variant (detectHardware os))"
  by (simp add: detectHardware_def Let_def split_def)

lemma getProfile_fresh: "fst (getProfile os \<lparr>profile = None\<rparr>) = detectHardware os"
  by (simp add: getProfile_def)

text \<open>
  Claim C9, as the specification states it, fails: on a host that is not macOS (the
  eight-core Linux machine) the profile counts all eight logical cores as performance
  cores and none as efficiency cores; the cores are not split evenly.
\<close>

theorem C9_even_split_counterexample:
  "(performanceCores (fst (getProfile linuxHost \<lparr>profile = None\<rparr>)),
    efficiencyCores (fst (getProfile linuxHost \<lparr>profile = None\<rparr>))) = (8, 0)
   \<and> cpuCores (fst (getProfile linuxHost \<lparr>profile = None\<rparr>)) = 8
   \<and> performanceCores (fst (getProfile linuxHost \<lparr>profile = None\<rparr>))
       \<noteq> cpuCores (fst (getProfile linuxHost \<lparr>profile = None\<rparr>)) div 2"
  unfolding getProfile_fresh
  using detectHardware_flags [of linuxHost]
  by (simp add: detectHardware_cores getPerformanceAndEfficiencyCores_def linuxHost_def)

text \<open>
  Claim C9, amended. The first \<^verbatim>\<open>getProfile\<close> of a manager returns a profile for every
  probe outcome (every \<^verbatim>\<open>execSync\<close> failure is caught), and the defaults are these. The
  unified-memory flag is set exactly when the platform is \<^verbatim>\<open>darwin\<close> and the architecture
  \<^verbatim>\<open>arm64\<close>, whatever the probes answer. On a platform other than \<^verbatim>\<open>darwin\<close> all logical
  cores are performance cores and there is no efficiency core. On \<^verbatim>\<open>darwin\<close>, when either
  core-count probe fails, both buckets hold half the logical cores, rounded down. When the
  host is not \<^verbatim>\<open>darwin\<close> on \<^verbatim>\<open>arm64\<close> or the brand probe fails, generation and variant are
  \<^verbatim>\<open>unknown\<close> and the GPU and neural core counts are 0. The recommended configuration is the
  planner's for the detected values.
\<close>

theorem C9_getProfile_defaults:
  "unifiedMemory (fst (getProfile os \<lparr>profile = None\<rparr>))
      = (platform os = ''darwin'' \<and> arch os = ''arm64'')
   \<and> isAppleSilicon (fst (getProfile os \<lparr>profile = None\<rparr>))
      = unifiedMemory (fst (getProfile os \<lparr>profile = None\<rparr>))
   \<and> cpuCores (fst (getProfile os \<lparr>profile = None\<rparr>)) = int (length (cpus os))
   \<and> (platform os \<noteq> ''darwin'' \<longrightarrow>
        performanceCores (fst (getProfile os \<lparr>profile = None\<rparr>)) = int (length (cpus os))
        \<and> efficiencyCores (fst (getProfile os \<lparr>profile = None\<rparr>)) = 0)
   \<and> (platform os = ''darwin''
        \<and> (execSync os ''sysctl -n hw.perflevel0.physicalcpu'' = None
           \<or> execSync os ''sysctl -n hw.perflevel1.physicalcpu'' = None) \<longrightarrow>
        performanceCores (fst (getProfile os \<lparr>profile = None\<rparr>)) = int (length (cpus os)) div 2
        \<and> efficiencyCores (fst (getProfile os \<lparr>profile = None\<rparr>)) = int (length (cpus os)) div 2)
   \<and> (platform os \<noteq> ''darwin'' \<or> arch os \<noteq> ''arm64''
        \<or> execSync os ''sysctl -n machdep.cpu.brand_string'' = None \<longrightarrow>
        generation (fst (getProfile os \<lparr>profile = None\<rparr>)) = ''unknown''
        \<and> variant (fst (getProfile os \<lparr>profile = None\<rparr>)) = ''unknown''
        \<and> gpuCores (fst (getProfile os \<lparr>profile = None\<rparr>)) = 0
        \<and> neuralEngineCores (fst (getProfile os \<lparr>profile = None\<rparr>)) = 0)
   \<and> recommended (fst (getProfile os \<lparr>profile = None\<rparr>))
      = calculateOptimalSettings (totalMemoryGB (fst (getProfile os \<lparr>profile = None\<rparr>)))
          (gpuCores (fst (getProfile os \<lparr>profile = None\<rparr>)))
          (performanceCores (fst (getProfile os \<lparr>profile = None\<rparr>)))
          (generation (fst (getProfile os \<lparr>profile = None\<rparr>)))
          (variant (fst (getProfile os \<lparr>profile = None\<rparr>)))"
proof -
  let ?P = "detectHardware os"
  have other: "platform os \<noteq> ''darwin'' \<longrightarrow>
        performanceCores ?P = int (length (cpus os)) \<and> efficiencyCores ?P = 0"
    by (simp add: detectHardware_cores getPerformanceAndEfficiencyCores_def)
  have half: "platform os = ''darwin''
        \<and> (execSync os ''sysctl -n hw.perflevel0.physicalcpu'' = None
           \<or> execSync os ''sysctl -n hw.perflevel1.physicalcpu'' = None) \<longrightarrow>
        performanceCores ?P = int (length (cpus os)) div 2
        \<and> efficiencyCores ?P = int (length (cpus os)) div 2"
    by (auto simp: detectHardware_cores getPerformanceAndEfficiencyCores_def
          split: option.splits)
  have unknown: "platform os \<noteq> ''darwin'' \<or> arch os \<noteq> ''arm64''
        \<or> execSync os ''sysctl -n machdep.cpu.brand_string'' = None \<longrightarrow>
        generation ?P = ''unknown'' \<and> variant ?P = ''unknown''
        \<and> gpuCores ?P = 0 \<and> neuralEngineCores ?P = 0"
    by (auto simp: detectHardware_silicon getAppleSiliconInfo_def unknownSilicon_def)
  show ?thesis
    unfolding getProfile_fresh
    using detectHardware_flags [of os] other half unknown detectHardware_recommended [of os]
    by blast
qed

theorem C9_getProfile_defaults_witness:
  "platform linuxHost \<noteq> ''darwin''
   \<and> performanceCores (fst (getProfile linuxHost \<lparr>profile = None\<rparr>)) = 8
   \<and> efficiencyCores (fst (getProfile linuxHost \<lparr>profile = None\<rparr>)) = 0
   \<and> unifiedMemory (fst (getProfile linuxHost \<lparr>profile = None\<rparr>)) = False
   \<and> platform intelMac = ''darwin''
   \<and> execSync intelMac ''sysctl -n hw.perflevel0.physicalcpu'' = None
   \<and> arch intelMac \<noteq> ''arm64''
   \<and> performanceCores (fst (getProfile intelMac \<lparr>profile = None\<rparr>)) = 4
   \<and> efficiencyCores (fst (getProfile intelMac \<lparr>profile = None\<rparr>)) = 4
   \<and> generation (fst (getProfile intelMac \<lparr>profile = None\<rparr>)) = ''unknown''
   \<and> gpuCores (fst (getProfile intelMac \<lparr>profile = None\<rparr>)) = 0"
proof -
  have l: "platform linuxHost \<noteq> ''darwin'' \<and> int (length (cpus linuxHost)) = 8
           \<and> arch linuxHost \<noteq> ''arm64''"
    by (simp add: linuxHost_def)
  have m: "platform intelMac = ''darwin'' \<and> int (length (cpus intelMac)) = 8
           \<and> execSync intelMac ''sysctl -n hw.perflevel0.physicalcpu'' = None
           \<and> arch intelMac \<noteq> ''arm64''"
    by (simp add: intelMac_def)
  from l m C9_getProfile_defaults [of linuxHost] C9_getProfile_defaults [of intelMac]
  show ?thesis by simp
qed

section \<open>Properties of the process supervisor\<close>

subsection \<open>The readiness handler and the listener of \<^verbatim>\<open>execFile\<close>\<close>

lemma resolve_idem: "resolve p (resolve p ps) = resolve p ps"
  by (simp add: resolve_def)

lemma update_twice: "AList.update k v (AList.update k v al) = AList.update k v al"
  by (simp add: update_triv update_conv')

lemma markReady_idem: "markReady h (markReady h m) = markReady h m"
proof (cases "h < length (children m)")
  case True
  then show ?thesis
    by (simp add: markReady_def Let_def resolve_idem update_twice)
next
  case False
  then show ?thesis
    by (simp add: markReady_def Let_def resolve_idem update_twice list_update_beyond)
qed

lemma foldl_handlerLine_ready:
  "foldl (handlerLine h) (markReady h m) ls = markReady h m"
  by (induction ls) (simp_all add: handlerLine_def markReady_idem)

lemma foldl_handlerLine:
  "foldl (handlerLine h) m ls =
     (if list_ex (\<lambda>line. line \<noteq> [] \<and> readinessLine line) ls then markReady h m else m)"
  by (induction ls arbitrary: m)
     (simp_all add: handlerLine_def foldl_handlerLine_ready markReady_idem)

lemma handler_eq: "handler h chunk m = (if chunkReady chunk then markReady h m else m)"
  by (simp add: handler_def chunkReady_def foldl_handlerLine)

lemma execFileKill_fields:
  "options (execFileKill c) = options c"
  "promise (execFileKill c) = promise c"
  "readyListener (execFileKill c) = readyListener c"
  "exited (execFileKill c) = exited c"
  "stdoutLen (execFileKill c) = stdoutLen c"
  "stderrLen (execFileKill c) = stderrLen c"
  "execError (execFileKill c) = execError c"
  "args (execFileKill c) = args c"
  "stdioDestroyed (execFileKill c)"
  "killSignals (execFileKill c) = (if exited c then killSignals c else killSignals c @ [''SIGTERM''])"
  by (simp_all add: execFileKill_def kill_def)

lemma execFileKill_listener:
  "execFileKill (c\<lparr>readyListener := b\<rparr>) = (execFileKill c)\<lparr>readyListener := b\<rparr>"
  by (simp add: execFileKill_def kill_def)

lemma onChildStdout_manager:
  "launchOptions (onChildStdout h d m) = launchOptions m"
  "processes (onChildStdout h d m) = processes m"
  "loading (onChildStdout h d m) = loading m"
  "promises (onChildStdout h d m) = promises m"
  "hardware (onChildStdout h d m) = hardware m"
  "length (children (onChildStdout h d m)) = length (children m)"
  by (simp_all add: onChildStdout_def Let_def)

lemma onChildStdout_child:
  assumes "h < length (children m)"
  shows "options (children (onChildStdout h d m) ! h) = options (children m ! h)"
    and "promise (children (onChildStdout h d m) ! h) = promise (children m ! h)"
    and "readyListener (children (onChildStdout h d m) ! h) = readyListener (children m ! h)"
    and "exited (children (onChildStdout h d m) ! h) = exited (children m ! h)"
    and "stdoutLen (children (onChildStdout h d m) ! h) = stdoutLen (children m ! h) + length d"
    and "\<not> stdioDestroyed (children m ! h) \<Longrightarrow>
         stdioDestroyed (children (onChildStdout h d m) ! h)
           = (stdoutLen (children m ! h) + length d > MAX_BUFFER)"
  using assms by (simp_all add: onChildStdout_def Let_def execFileKill_fields)

lemma markReady_onChildStdout:
  "markReady h (onChildStdout h d m) = onChildStdout h d (markReady h m)"
proof (cases "h < length (children m)")
  case True
  have swap: "(execFileKill (c\<lparr>stdoutLen := n, execError := e\<rparr>))\<lparr>readyListener := False\<rparr>
      = execFileKill (c\<lparr>readyListener := False, stdoutLen := n, execError := e\<rparr>)"
    "c\<lparr>stdoutLen := n, readyListener := False\<rparr> = c\<lparr>readyListener := False, stdoutLen := n\<rparr>"
    for c :: ChildProcess and n e
    by (simp_all add: execFileKill_def kill_def)
  from True show ?thesis
    by (intro Manager.equality)
       (simp_all add: markReady_def onChildStdout_def Let_def execFileKill_fields swap)
next
  case False
  then show ?thesis
    by (simp add: markReady_def onChildStdout_def Let_def list_update_beyond)
qed

lemma markReady_child:
  assumes "h < length (children m)"
  shows "stdioDestroyed (children (markReady h m) ! h) = stdioDestroyed (children m ! h)"
    and "exited (children (markReady h m) ! h) = exited (children m ! h)"
    and "stdoutLen (children (markReady h m) ! h) = stdoutLen (children m ! h)"
    and "\<not> readyListener (children (markReady h m) ! h)"
    and "length (children (markReady h m)) = length (children m)"
    and "options (children (markReady h m) ! h) = options (children m ! h)"
    and "promise (children (markReady h m) ! h) = promise (children m ! h)"
    and "killSignals (children (markReady h m) ! h) = killSignals (children m ! h)"
  using assms by (simp_all add: markReady_def Let_def)

lemma counted_destroyed:
  "stdioDestroyed (children m ! h) \<Longrightarrow> counted h chunks m = m"
  by (cases chunks) simp_all

lemma markReady_counted:
  "h < length (children m) \<Longrightarrow>
   markReady h (counted h chunks m) = counted h chunks (markReady h m)"
proof (induction chunks arbitrary: m)
  case Nil
  show ?case by simp
next
  case (Cons d ds)
  have len: "h < length (children (onChildStdout h d m))"
    using Cons.prems by (simp add: onChildStdout_manager)
  show ?case
    using Cons.IH [OF len] Cons.prems
    by (simp add: markReady_child markReady_onChildStdout)
qed

lemma feed_destroyed:
  "stdioDestroyed (children m ! h) \<Longrightarrow> feed h chunks m = m"
  by (induction chunks) (simp_all add: feed_def stdoutData_def)

lemma feed_Cons: "feed h (d # ds) m = feed h ds (stdoutData h d m)"
  by (simp add: feed_def)

lemma feed_detached:
  assumes "h < length (children m)" "\<not> exited (children m ! h)"
          "\<not> readyListener (children m ! h)"
  shows "feed h chunks m = counted h chunks m"
  using assms
proof (induction chunks arbitrary: m)
  case Nil
  show ?case by (simp add: feed_def)
next
  case (Cons d ds)
  show ?case
  proof (cases "stdioDestroyed (children m ! h)")
    case True
    then show ?thesis by (simp add: feed_destroyed)
  next
    case False
    have step: "stdoutData h d m = onChildStdout h d m"
      using Cons.prems False by (simp add: stdoutData_def)
    have "feed h ds (onChildStdout h d m) = counted h ds (onChildStdout h d m)"
      using Cons.prems
      by (intro Cons.IH) (simp_all add: onChildStdout_manager onChildStdout_child)
    then show ?thesis
      using False by (simp add: feed_Cons step)
  qed
qed

lemma feed_attached:
  assumes "h < length (children m)" "\<not> exited (children m ! h)"
          "readyListener (children m ! h)" "\<not> stdioDestroyed (children m ! h)"
  shows "feed h chunks m =
           (if list_ex chunkReady (delivered (stdoutLen (children m ! h)) chunks)
            then markReady h (counted h chunks m)
            else counted h chunks m)"
  using assms
proof (induction chunks arbitrary: m)
  case Nil
  show ?case by (simp add: feed_def)
next
  case (Cons d ds)
  let ?m' = "onChildStdout h d m"
  let ?n = "stdoutLen (children m ! h) + length d"
  have len: "h < length (children ?m')" and alive: "\<not> exited (children ?m' ! h)"
    and attached: "readyListener (children ?m' ! h)"
    and count: "stdoutLen (children ?m' ! h) = ?n"
    and destroyed: "stdioDestroyed (children ?m' ! h) = (?n > MAX_BUFFER)"
    using Cons.prems by (simp_all add: onChildStdout_manager onChildStdout_child)
  have step: "stdoutData h d m = (if chunkReady d then markReady h ?m' else ?m')"
    using Cons.prems by (simp add: stdoutData_def handler_eq)
  have here: "counted h (d # ds) m = counted h ds ?m'"
    using Cons.prems by simp
  show ?case
  proof (cases "?n > MAX_BUFFER")
    case True
    then have gone: "stdioDestroyed (children ?m' ! h)"
      using destroyed by simp
    then have gone': "stdioDestroyed (children (markReady h ?m') ! h)"
      using len by (simp add: markReady_child)
    have "counted h ds ?m' = ?m'"
      using gone by (rule counted_destroyed)
    moreover have "feed h ds ?m' = ?m'" "feed h ds (markReady h ?m') = markReady h ?m'"
      using gone gone' by (simp_all add: feed_destroyed)
    ultimately show ?thesis
      using True Cons.prems(4) by (simp add: feed_Cons step)
  next
    case False
    then have kept: "\<not> stdioDestroyed (children ?m' ! h)"
      using destroyed by simp
    show ?thesis
    proof (cases "chunkReady d")
      case True
      have "feed h ds (markReady h ?m') = counted h ds (markReady h ?m')"
        using len alive by (intro feed_detached) (simp_all add: markReady_child)
      also have "\<dots> = markReady h (counted h ds ?m')"
        using len by (simp add: markReady_counted)
      finally show ?thesis
        using True False Cons.prems(4) by (simp add: feed_Cons step)
    next
      case no: False
      have "feed h ds ?m' =
           (if list_ex chunkReady (delivered ?n ds)
            then markReady h (counted h ds ?m') else counted h ds ?m')"
        using Cons.IH [OF len alive attached kept] count by simp
      then show ?thesis
        using no False Cons.prems(4) by (simp add: feed_Cons step)
    qed
  qed
qed


subsection \<open>Launches, the retained options and the close event\<close>

lemma launchServer_inflight:
  "map_of (loading m) (id_lo opts) = Some p \<Longrightarrow>
   launchServer os opts m = (length (promises m), m\<lparr>promises := promises m @ [Adopts p]\<rparr>)"
  by (simp add: launchServer_def asyncReturn_def)

lemma launchServer_fresh:
  assumes "map_of (loading m) (id_lo opts) = None"
  shows "fst (launchServer os opts m) = length (promises m) + 1"
    and "promises (snd (launchServer os opts m))
           = promises m @ [Own Pending, Adopts (length (promises m))]"
    and "children (snd (launchServer os opts m)) =
           children m @ [\<lparr> args = launchArgs opts (fst (getProfile os (hardware m))),
                            options = opts, promise = length (promises m),
                            readyListener = True, stdoutLen = 0, stderrLen = 0,
                            execError = None, stdioDestroyed = False,
                            killSignals = [], exited = False \<rparr>]"
    and "processes (snd (launchServer os opts m)) =
           AList.update (id_lo opts) (length (children m)) (processes m)"
    and "loading (snd (launchServer os opts m)) =
           AList.update (id_lo opts) (length (promises m)) (loading m)"
    and "launchOptions (snd (launchServer os opts m)) = launchOptions m"
    and "hardware (snd (launchServer os opts m)) = snd (getProfile os (hardware m))"
  using assms by (simp_all add: launchServer_def asyncReturn_def Let_def split_def)


lemma list_all_update:
  "list_all P al \<Longrightarrow> P (k, v) \<Longrightarrow> list_all P (AList.update k v al)"
  by (induction al) auto







lemma cleanupProcess_launchOptions: "launchOptions (cleanupProcess i m) = launchOptions m"
  by (simp add: cleanupProcess_def Let_def split_def split: option.splits)

lemma closeAll_launchOptions: "launchOptions (closeAll m) = launchOptions m"
  by (simp add: closeAll_def)



lemma execFileCallback_fields:
  "children (execFileCallback h err m) = children m"
  "launchOptions (execFileCallback h err m) = launchOptions m"
  "processes (execFileCallback h err m) = processes m"
  "loading (execFileCallback h err m) = loading m"
  "hardware (execFileCallback h err m) = hardware m"
  "length (promises (execFileCallback h err m)) = length (promises m)"
  by (simp_all add: execFileCallback_def reject_def split: option.splits)

lemma processClose_unfold:
  assumes "h < length (children m)" "\<not> exited (children m ! h)"
  shows "processClose os h code signal m =
           closeHandler os h code signal
            (execFileCallback h (exithandlerError (children m ! h) code signal)
               (m\<lparr>children := (children m)[h := (children m ! h)\<lparr>exited := True\<rparr>]\<rparr>))"
  using assms by (simp add: processClose_def)



subsection \<open>Adopted promises and the byte count of \<^verbatim>\<open>execFile\<close>\<close>

lemma ownAt_append: "ownAt ps p \<Longrightarrow> ownAt (ps @ rest) p"
  by (auto simp: ownAt_def nth_append)

lemma ownAt_resolve: "ownAt ps p \<Longrightarrow> ownAt (resolve q ps) p"
  by (auto simp: ownAt_def resolve_def nth_list_update split: Promise.splits)

lemma ownAt_reject: "ownAt ps p \<Longrightarrow> ownAt (reject q e ps) p"
  by (auto simp: ownAt_def reject_def nth_list_update split: Promise.splits)

lemma adoptsOwn_append: "adoptsOwn ps r p \<Longrightarrow> adoptsOwn (ps @ rest) r p"
  by (auto simp: adoptsOwn_def nth_append ownAt_append)

lemma adoptsOwn_resolve: "adoptsOwn ps r p \<Longrightarrow> adoptsOwn (resolve q ps) r p"
  by (auto simp: adoptsOwn_def ownAt_resolve) (auto simp: resolve_def nth_list_update)

lemma adoptsOwn_reject: "adoptsOwn ps r p \<Longrightarrow> adoptsOwn (reject q e ps) r p"
  by (auto simp: adoptsOwn_def ownAt_reject) (auto simp: reject_def nth_list_update)

lemma adoptsOwn_outcome:
  "adoptsOwn (promises m) r p \<Longrightarrow> outcome m r = outcome m p"
  by (auto simp: adoptsOwn_def ownAt_def outcome_def split: Promise.splits)

lemma adoptsOwn_last: "ownAt ps p \<Longrightarrow> adoptsOwn (ps @ [Adopts p]) (length ps) p"
  by (simp add: adoptsOwn_def ownAt_append)

lemma launchServer_promises:
  "promises (snd (launchServer os opts m)) =
     promises m @ (case map_of (loading m) (id_lo opts) of
                     Some p \<Rightarrow> [Adopts p]
                   | None \<Rightarrow> [Own Pending, Adopts (length (promises m))])"
  by (cases "map_of (loading m) (id_lo opts)")
     (simp_all add: launchServer_fresh launchServer_inflight)

lemma adoptsOwn_launchServer:
  "adoptsOwn (promises m) r p \<Longrightarrow> adoptsOwn (promises (snd (launchServer os opts m))) r p"
  unfolding launchServer_promises by (rule adoptsOwn_append)

lemma adoptsOwn_stdoutData:
  "adoptsOwn (promises m) r p \<Longrightarrow> adoptsOwn (promises (stdoutData h d m)) r p"
  by (simp add: stdoutData_def handler_eq markReady_def Let_def onChildStdout_manager
        adoptsOwn_resolve)

lemma adoptsOwn_stderrData:
  "adoptsOwn (promises m) r p \<Longrightarrow> adoptsOwn (promises (stderrData h d m)) r p"
  by (simp add: stderrData_def onChildStderr_def Let_def)

lemma adoptsOwn_processClose:
  assumes "adoptsOwn (promises m) r p"
  shows "adoptsOwn (promises (processClose os h code signal m)) r p"
proof -
  have cb: "adoptsOwn (promises (execFileCallback h err m')) r p"
    if "adoptsOwn (promises m') r p" for err m'
    using that by (cases err) (simp_all add: execFileCallback_def adoptsOwn_reject)
  have ch: "adoptsOwn (promises (closeHandler os h code signal m')) r p"
    if "adoptsOwn (promises m') r p" for m'
    using that
    by (auto simp: closeHandler_def Let_def launchServer_promises intro: adoptsOwn_append
          split: option.splits)
  show ?thesis
    using assms by (auto simp: processClose_def intro!: ch cb)
qed

lemma adoptsOwn_step:
  "adoptsOwn (promises m) r p \<Longrightarrow> adoptsOwn (promises (step os e m)) r p"
  by (cases e)
     (simp_all add: adoptsOwn_launchServer adoptsOwn_stdoutData adoptsOwn_stderrData
        adoptsOwn_processClose cleanupProcess_def closeAll_def Let_def split_def
        split: option.splits)

lemma adoptsOwn_run:
  "adoptsOwn (promises m) r p \<Longrightarrow> adoptsOwn (promises (run os events m)) r p"
  unfolding run_def
  by (induction events arbitrary: m) (simp_all add: adoptsOwn_step)

lemma counted_manager:
  "launchOptions (counted h chunks m) = launchOptions m"
  "processes (counted h chunks m) = processes m"
  "loading (counted h chunks m) = loading m"
  "promises (counted h chunks m) = promises m"
  "hardware (counted h chunks m) = hardware m"
  "length (children (counted h chunks m)) = length (children m)"
  by (induction chunks arbitrary: m) (simp_all add: onChildStdout_manager)

lemma counted_child:
  assumes "h < length (children m)"
  shows "options (children (counted h chunks m) ! h) = options (children m ! h)"
    and "promise (children (counted h chunks m) ! h) = promise (children m ! h)"
    and "readyListener (children (counted h chunks m) ! h) = readyListener (children m ! h)"
    and "exited (children (counted h chunks m) ! h) = exited (children m ! h)"
  using assms
  by (induction chunks arbitrary: m)
     (simp_all add: onChildStdout_manager onChildStdout_child)



lemma onChildStdout_overflow:
  assumes "h < length (children m)" "\<not> exited (children m ! h)"
  shows "killSignals (children (onChildStdout h d m) ! h)
           = killSignals (children m ! h)
             @ (if stdoutLen (children m ! h) + length d > MAX_BUFFER then [''SIGTERM''] else [])"
    and "execError (children (onChildStdout h d m) ! h)
           = (if stdoutLen (children m ! h) + length d > MAX_BUFFER
              then Some MaxBufferExceeded else execError (children m ! h))"
  using assms by (simp_all add: onChildStdout_def Let_def execFileKill_fields)

lemma counted_overflow:
  assumes "h < length (children m)" "\<not> exited (children m ! h)"
          "\<not> stdioDestroyed (children m ! h)"
          "stdoutLen (children m ! h) \<le> MAX_BUFFER"
  shows "stdioDestroyed (children (counted h chunks m) ! h)
           = (stdoutLen (children m ! h) + sum_list (map length chunks) > MAX_BUFFER)
         \<and> killSignals (children (counted h chunks m) ! h)
           = killSignals (children m ! h)
             @ (if stdoutLen (children m ! h) + sum_list (map length chunks) > MAX_BUFFER
                then [''SIGTERM''] else [])
         \<and> execError (children (counted h chunks m) ! h)
           = (if stdoutLen (children m ! h) + sum_list (map length chunks) > MAX_BUFFER
              then Some MaxBufferExceeded else execError (children m ! h))"
  using assms
proof (induction chunks arbitrary: m)
  case Nil
  then show ?case by simp
next
  case (Cons d ds)
  let ?m' = "onChildStdout h d m"
  let ?n = "stdoutLen (children m ! h) + length d"
  have len: "h < length (children ?m')" and alive: "\<not> exited (children ?m' ! h)"
    and count: "stdoutLen (children ?m' ! h) = ?n"
    and destroyed: "stdioDestroyed (children ?m' ! h) = (?n > MAX_BUFFER)"
    using Cons.prems by (simp_all add: onChildStdout_manager onChildStdout_child)
  note over = onChildStdout_overflow [OF Cons.prems(1,2), of d]
  show ?case
  proof (cases "?n > MAX_BUFFER")
    case True
    then have "counted h (d # ds) m = ?m'"
      using Cons.prems destroyed by (simp add: counted_destroyed)
    then show ?thesis
      using True destroyed over by simp
  next
    case False
    then have kept: "\<not> stdioDestroyed (children ?m' ! h)"
      using destroyed by simp
    have here: "counted h (d # ds) m = counted h ds ?m'"
      using Cons.prems by simp
    have small: "stdoutLen (children ?m' ! h) \<le> MAX_BUFFER"
      using False count by simp
    show ?thesis
      unfolding here
      using Cons.IH [OF len alive kept small] False over count by (simp add: add.assoc)
  qed
qed


subsection \<open>The example run\<close>

lemmas json_eval =
  JSON_parse_def isJsonSpace_def punctuation_def parseStep_def startValue_def
  memberKey_def closeObject_def closeArray_def afterValue_def wordToken_def validNumber_def
  validExponent_def isDigit_def escapeChar_def

lemma readinessLine_sentinel: "readinessLine sentinelLine"
  by (simp add: readinessLine_def sentinelLine_def json_eval)

lemma chunkReady_sentinel: "chunkReady (sentinelLine @ [CHR 0x0A])"
proof -
  have "splitNewline (sentinelLine @ [CHR 0x0A]) = [sentinelLine, []]"
    by (simp add: sentinelLine_def)
  then show ?thesis
    using readinessLine_sentinel by (simp add: chunkReady_def sentinelLine_def)
qed


lemma sentinel_lengths:
  "length sentinelLine = 35" "length sentinelHead = 20" "length sentinelTail = 16"
  by (simp_all add: sentinelHead_def sentinelTail_def sentinelLine_def)



lemma emptyManager_fresh: "map_of (loading emptyManager) k = None"
  by (simp add: emptyManager_def)

lemma callerA_eq: "callerA = 1"
  unfolding callerA_def launchServer_fresh(1) [OF emptyManager_fresh]
  by (simp add: emptyManager_def)

lemma launchedA_fields:
  "launchOptions launchedA = []"
  "processes launchedA = [(''a'', 0)]"
  "loading launchedA = [(''a'', 0)]"
  "promises launchedA = [Own Pending, Adopts 0]"
  "children launchedA =
     [\<lparr> args = launchArgs sessionA (detectHardware linuxHost), options = sessionA,
         promise = 0, readyListener = True, stdoutLen = 0, stderrLen = 0,
         execError = None, stdioDestroyed = False, killSignals = [], exited = False \<rparr>]"
  unfolding launchedA_def launchServer_fresh [OF emptyManager_fresh]
  by (simp_all add: emptyManager_def sessionA_def getProfile_def)

lemma launchedA_child:
  "0 < length (children launchedA)" "\<not> exited (children launchedA ! 0)"
  "readyListener (children launchedA ! 0)" "\<not> stdioDestroyed (children launchedA ! 0)"
  "stdoutLen (children launchedA ! 0) = 0"
  by (simp_all add: launchedA_fields)

lemma readyA_eq:
  "readyA = markReady 0 (onChildStdout 0 (sentinelLine @ [CHR 0x0A]) launchedA)"
  by (simp add: readyA_def stdoutData_def handler_eq chunkReady_sentinel launchedA_fields)

lemma readyA_fields:
  "launchOptions readyA = [(''a'', sessionA)]"
  "processes readyA = [(''a'', 0)]"
  "loading readyA = [(''a'', 0)]"
  "promises readyA = [Own Resolved, Adopts 0]"
  "children readyA =
     [\<lparr> args = launchArgs sessionA (detectHardware linuxHost), options = sessionA,
         promise = 0, readyListener = False, stdoutLen = 36, stderrLen = 0,
         execError = None, stdioDestroyed = False, killSignals = [], exited = False \<rparr>]"
  unfolding readyA_eq
  by (simp_all add: markReady_def onChildStdout_def Let_def launchedA_fields resolve_def
        sessionA_def sentinel_lengths MAX_BUFFER_def)

lemma reachable_launchedA: "reachable linuxHost launchedA"
  unfolding launchedA_def by (intro reachable.launch reachable.start)


lemma launchArgs_A:
  "launchArgs sessionA (detectHardware linuxHost) =
     [''-m'', ''/models/llama.gguf'', ''-c'', ''8192'', ''-ngl'', ''20'', ''-t'', ''6'',
      ''-b'', ''512'', ''--port'', ''9090'']"
  by (simp add: launchArgs_def sessionA_def detectHardware_def linuxHost_def Let_def split_def
        getAppleSiliconInfo_def getPerformanceAndEfficiencyCores_def unknownSilicon_def
        roundGB_def calculateOptimalSettings_def orElse_def toString_def natDigits.simps)



subsection \<open>The in-flight entries\<close>

lemma list_all_delete: "list_all P al \<Longrightarrow> list_all P (AList.delete k al)"
  by (induction al) auto

lemma list_all_mono: "list_all P al \<Longrightarrow> (\<And>x. P x \<Longrightarrow> Q x) \<Longrightarrow> list_all Q al"
  by (induction al) auto

lemma loadingOwn_promises:
  assumes "loadingOwn m" and "\<And>p. ownAt (promises m) p \<Longrightarrow> ownAt ps p"
  shows "list_all (\<lambda>(k, p). ownAt ps p) (loading m)"
  using assms(1) unfolding loadingOwn_def
  by (rule list_all_mono) (auto intro: assms(2))

lemma loadingOwn_launchServer:
  assumes "loadingOwn m"
  shows "loadingOwn (snd (launchServer os opts m))"
proof (cases "map_of (loading m) (id_lo opts)")
  case None
  have old: "list_all (\<lambda>(k, p). ownAt (promises m @ [Own Pending, Adopts (length (promises m))]) p)
               (loading m)"
    using assms by (rule loadingOwn_promises) (rule ownAt_append)
  have new: "ownAt (promises m @ [Own Pending, Adopts (length (promises m))]) (length (promises m))"
    by (simp add: ownAt_def nth_append)
  show ?thesis
    unfolding loadingOwn_def launchServer_fresh [OF None]
    using old new by (intro list_all_update) simp_all
next
  case (Some p)
  have "list_all (\<lambda>(k, q). ownAt (promises m @ [Adopts p]) q) (loading m)"
    using assms by (rule loadingOwn_promises) (rule ownAt_append)
  then show ?thesis
    by (simp add: loadingOwn_def launchServer_inflight [OF Some])
qed

lemma loadingOwn_stdoutData: "loadingOwn m \<Longrightarrow> loadingOwn (stdoutData h d m)"
proof -
  assume own: "loadingOwn m"
  have "list_all (\<lambda>(k, p). ownAt (resolve q (promises m)) p) (loading m)" for q
    using own by (rule loadingOwn_promises) (rule ownAt_resolve)
  then show ?thesis
    using own
    by (simp add: loadingOwn_def stdoutData_def handler_eq markReady_def Let_def
          onChildStdout_manager)
qed

lemma loadingOwn_processClose:
  assumes "loadingOwn m"
  shows "loadingOwn (processClose os h code signal m)"
proof -
  have cb: "loadingOwn (execFileCallback h err m')" if "loadingOwn m'" for err m'
  proof (cases err)
    case None
    then show ?thesis using that by (simp add: execFileCallback_def)
  next
    case (Some e)
    have "list_all (\<lambda>(k, p). ownAt (reject q e (promises m')) p) (loading m')" for q
      using that by (rule loadingOwn_promises) (rule ownAt_reject)
    then show ?thesis
      using Some by (simp add: loadingOwn_def execFileCallback_def)
  qed
  have del: "loadingOwn (m'\<lparr>processes := ps, loading := AList.delete i (loading m')\<rparr>)"
    if "loadingOwn m'" for m' ps i
    using that by (simp add: loadingOwn_def list_all_delete)
  have ch: "loadingOwn (closeHandler os h code signal m')" if "loadingOwn m'" for m'
    using del [OF that]
    by (auto simp: closeHandler_def Let_def intro: loadingOwn_launchServer split: option.splits)
  have ex: "loadingOwn (m\<lparr>children := cs\<rparr>)" for cs
    using assms by (simp add: loadingOwn_def)
  show ?thesis
    by (auto simp: processClose_def assms intro!: ch cb ex)
qed

lemma reachable_loadingOwn: "reachable os m \<Longrightarrow> loadingOwn m"
proof (induction rule: reachable.induct)
  case start
  show ?case by (simp add: loadingOwn_def emptyManager_def)
next
  case (launch m opts)
  from launch.IH show ?case by (rule loadingOwn_launchServer)
next
  case (data m h chunk)
  from data.IH show ?case by (rule loadingOwn_stdoutData)
next
  case (errdata m h chunk)
  then show ?case by (simp add: loadingOwn_def stderrData_def onChildStderr_def Let_def)
next
  case (closed m h code signal)
  from closed.IH show ?case by (rule loadingOwn_processClose)
next
  case (cleanup m i)
  then show ?case
    by (simp add: loadingOwn_def cleanupProcess_def Let_def split_def list_all_delete
          split: option.splits)
next
  case (shutdown m)
  then show ?case by (simp add: loadingOwn_def closeAll_def)
qed

lemma loadingOwn_lookup:
  "loadingOwn m \<Longrightarrow> map_of (loading m) k = Some p \<Longrightarrow> ownAt (promises m) p"
  unfolding loadingOwn_def
  by (auto simp: list_all_iff dest: map_of_SomeD)


subsection \<open>Coalesced launches\<close>

lemma launchServer_again:
  "map_of (loading (snd (launchServer os first m))) (id_lo first)
     = Some (case map_of (loading m) (id_lo first) of Some p \<Rightarrow> p | None \<Rightarrow> length (promises m))"
  by (cases "map_of (loading m) (id_lo first)")
     (simp_all add: launchServer_fresh launchServer_inflight update_conv')

text \<open>
  Claim C3, amended. In every reachable state, when a launch for the session id is in
  flight, \<^verbatim>\<open>launchServer\<close> returns a new promise that adopts the in-flight promise and
  changes nothing else: no process is started and no map changes; in every later run the
  caller observes the outcome of the in-flight promise. When no launch is in flight, the
  call starts one live child process (handler subscribed, nothing counted, not killed)
  whose promise is pending and is recorded as in flight. A second call for the same id
  right after the first, from any reachable state, again only adds a promise that adopts
  the same in-flight promise: it is a different object from the first caller's promise,
  and in every later run both callers observe the same outcome.
\<close>

theorem C3_inflight_coalesced:
  assumes "reachable os m" and "id_lo second = id_lo first"
  shows "(map_of (loading m) (id_lo first) = Some p \<longrightarrow>
            launchServer os first m
              = (length (promises m), m\<lparr>promises := promises m @ [Adopts p]\<rparr>)
            \<and> outcome (run os events (snd (launchServer os first m)))
                  (fst (launchServer os first m))
              = outcome (run os events (snd (launchServer os first m))) p)
       \<and> (map_of (loading m) (id_lo first) = None \<longrightarrow>
            fst (launchServer os first m) = length (promises m) + 1
            \<and> promises (snd (launchServer os first m))
                = promises m @ [Own Pending, Adopts (length (promises m))]
            \<and> children (snd (launchServer os first m))
                = children m @ [\<lparr> args = launchArgs first (fst (getProfile os (hardware m))),
                      options = first, promise = length (promises m),
                      readyListener = True, stdoutLen = 0, stderrLen = 0,
                      execError = None, stdioDestroyed = False,
                      killSignals = [], exited = False \<rparr>]
            \<and> map_of (processes (snd (launchServer os first m))) (id_lo first)
                = Some (length (children m))
            \<and> map_of (loading (snd (launchServer os first m))) (id_lo first)
                = Some (length (promises m)))
       \<and> launchServer os second (snd (launchServer os first m))
           = (length (promises (snd (launchServer os first m))),
              (snd (launchServer os first m))
                \<lparr>promises := promises (snd (launchServer os first m))
                   @ [Adopts (case map_of (loading m) (id_lo first) of
                                Some p \<Rightarrow> p | None \<Rightarrow> length (promises m))]\<rparr>)
       \<and> fst (launchServer os second (snd (launchServer os first m)))
           \<noteq> fst (launchServer os first m)
       \<and> outcome (run os events (snd (launchServer os second (snd (launchServer os first m)))))
             (fst (launchServer os second (snd (launchServer os first m))))
           = outcome (run os events (snd (launchServer os second (snd (launchServer os first m)))))
               (fst (launchServer os first m))"
proof -
  let ?m1 = "snd (launchServer os first m)"
  let ?r1 = "fst (launchServer os first m)"
  let ?q = "case map_of (loading m) (id_lo first) of Some p \<Rightarrow> p | None \<Rightarrow> length (promises m)"
  let ?m2 = "snd (launchServer os second ?m1)"
  let ?r2 = "fst (launchServer os second ?m1)"
  have reach1: "reachable os ?m1"
    using assms(1) by (rule reachable.launch)
  have flight: "map_of (loading ?m1) (id_lo second) = Some ?q"
    unfolding assms(2) by (rule launchServer_again)
  have own: "ownAt (promises ?m1) ?q"
    using reachable_loadingOwn [OF reach1] flight by (rule loadingOwn_lookup)
  have second: "launchServer os second ?m1
      = (length (promises ?m1), ?m1\<lparr>promises := promises ?m1 @ [Adopts ?q]\<rparr>)"
    using flight by (rule launchServer_inflight)
  have r1: "?r1 < length (promises ?m1)" "promises ?m1 ! ?r1 = Adopts ?q"
    by (cases "map_of (loading m) (id_lo first)";
        simp add: launchServer_fresh launchServer_inflight nth_append)+
  have distinct: "?r2 \<noteq> ?r1"
    using r1(1) by (simp add: second)
  have a1: "adoptsOwn (promises ?m2) ?r1 ?q"
    using r1 own by (simp add: second adoptsOwn_def nth_append ownAt_append)
  have a2: "adoptsOwn (promises ?m2) ?r2 ?q"
    using own by (simp add: second adoptsOwn_last)
  have shared: "outcome (run os events ?m2) ?r2 = outcome (run os events ?m2) ?r1"
    using adoptsOwn_outcome [OF adoptsOwn_run [OF a1]] adoptsOwn_outcome [OF adoptsOwn_run [OF a2]]
    by simp
  have inflight: "launchServer os first m
              = (length (promises m), m\<lparr>promises := promises m @ [Adopts p]\<rparr>)
            \<and> outcome (run os events ?m1) ?r1 = outcome (run os events ?m1) p"
    if some: "map_of (loading m) (id_lo first) = Some p"
  proof -
    have eq: "launchServer os first m
              = (length (promises m), m\<lparr>promises := promises m @ [Adopts p]\<rparr>)"
      using some by (rule launchServer_inflight)
    have "ownAt (promises m) p"
      using reachable_loadingOwn [OF assms(1)] some by (rule loadingOwn_lookup)
    then have "adoptsOwn (promises ?m1) ?r1 p"
      by (simp add: eq adoptsOwn_last)
    then show ?thesis
      using eq adoptsOwn_outcome [OF adoptsOwn_run] by blast
  qed
  have fresh: "fst (launchServer os first m) = length (promises m) + 1
            \<and> promises ?m1 = promises m @ [Own Pending, Adopts (length (promises m))]
            \<and> children ?m1
                = children m @ [\<lparr> args = launchArgs first (fst (getProfile os (hardware m))),
                      options = first, promise = length (promises m),
                      readyListener = True, stdoutLen = 0, stderrLen = 0,
                      execError = None, stdioDestroyed = False,
                      killSignals = [], exited = False \<rparr>]
            \<and> map_of (processes ?m1) (id_lo first) = Some (length (children m))
            \<and> map_of (loading ?m1) (id_lo first) = Some (length (promises m))"
    if none: "map_of (loading m) (id_lo first) = None"
    by (simp add: launchServer_fresh [OF none] update_conv')
  from inflight fresh second distinct shared show ?thesis
    by blast
qed

theorem C3_inflight_coalesced_witness:
  "reachable linuxHost launchedA
   \<and> id_lo (sessionA\<lparr>port := None\<rparr>) = id_lo sessionA
   \<and> map_of (loading launchedA) (id_lo sessionA) = Some 0
   \<and> launchServer linuxHost sessionA launchedA
       = (2, launchedA\<lparr>promises := [Own Pending, Adopts 0, Adopts 0]\<rparr>)
   \<and> reachable linuxHost emptyManager
   \<and> map_of (loading emptyManager) (id_lo sessionA) = None
   \<and> callerA = 1
   \<and> launchServer linuxHost (sessionA\<lparr>port := None\<rparr>) launchedA
       = (2, launchedA\<lparr>promises := [Own Pending, Adopts 0, Adopts 0]\<rparr>)
   \<and> outcome (stdoutData 0 (sentinelLine @ [CHR 0x0A])
         (snd (launchServer linuxHost (sessionA\<lparr>port := None\<rparr>) launchedA))) 2
       = outcome (stdoutData 0 (sentinelLine @ [CHR 0x0A])
         (snd (launchServer linuxHost (sessionA\<lparr>port := None\<rparr>) launchedA))) callerA"
proof -
  have s: "id_lo (sessionA\<lparr>port := None\<rparr>) = id_lo sessionA"
    by simp
  have l: "map_of (loading launchedA) (id_lo sessionA) = Some 0"
    by (simp add: launchedA_fields sessionA_def)
  note inflight = C3_inflight_coalesced [OF reachable_launchedA s, of 0 "[]",
      THEN conjunct1, rule_format, OF l, THEN conjunct1]
  note fresh = C3_inflight_coalesced [OF reachable.start s, where os = linuxHost
      and events = "[StdoutData 0 (sentinelLine @ [CHR 0x0A])]" and p = 0,
      folded launchedA_def callerA_def]
  have w1: "launchServer linuxHost sessionA launchedA
       = (2, launchedA\<lparr>promises := [Own Pending, Adopts 0, Adopts 0]\<rparr>)"
    using inflight by (simp add: launchedA_fields)
  have w2: "launchServer linuxHost (sessionA\<lparr>port := None\<rparr>) launchedA
       = (2, launchedA\<lparr>promises := [Own Pending, Adopts 0, Adopts 0]\<rparr>)"
    using fresh [THEN conjunct2, THEN conjunct2, THEN conjunct1]
    by (simp add: launchedA_fields emptyManager_def)
  have w3: "outcome (stdoutData 0 (sentinelLine @ [CHR 0x0A])
         (snd (launchServer linuxHost (sessionA\<lparr>port := None\<rparr>) launchedA))) 2
       = outcome (stdoutData 0 (sentinelLine @ [CHR 0x0A])
         (snd (launchServer linuxHost (sessionA\<lparr>port := None\<rparr>) launchedA))) callerA"
    using fresh [THEN conjunct2, THEN conjunct2, THEN conjunct2, THEN conjunct2]
    by (simp add: run_def w2)
  from reachable_launchedA s l w1 reachable.start [of linuxHost] emptyManager_fresh callerA_eq w2 w3
  show ?thesis by blast
qed

text \<open>
  Claim C3, as the specification states it, fails: a call for session \<open>a\<close> while its launch
  is in flight does not return the in-flight promise object (number 0 in the in-flight
  map), nor the promise the first caller received, but a new one.
\<close>

theorem C3_fresh_promise_counterexample:
  "map_of (loading launchedA) (id_lo sessionA) = Some 0
   \<and> callerA \<noteq> 0
   \<and> fst (launchServer linuxHost sessionA launchedA) \<noteq> 0
   \<and> fst (launchServer linuxHost sessionA launchedA) \<noteq> callerA"
proof -
  have l: "map_of (loading launchedA) (id_lo sessionA) = Some 0"
    by (simp add: launchedA_fields sessionA_def)
  then show ?thesis
    by (simp add: launchServer_inflight [OF l] callerA_eq launchedA_fields)
qed


subsection \<open>Readiness from the chunks of \<^verbatim>\<open>stdout\<close>\<close>






lemma splitNewline_run:
  "splitNewline (replicate n (CHR ''x'') @ [CHR 0x0A]) = [replicate n (CHR ''x''), []]"
  by (induction n) simp_all

lemma lexJson_word_run:
  "lexJson (LWord w) ts (replicate n (CHR ''x''))
     = (case wordToken (rev (replicate n (CHR ''x'') @ w)) of
          None \<Rightarrow> None | Some t \<Rightarrow> Some (rev (t # ts)))"
proof (induction n arbitrary: w)
  case 0
  show ?case by simp
next
  case (Suc n)
  have "replicate n (CHR ''x'') @ CHR ''x'' # w = CHR ''x'' # replicate n (CHR ''x'') @ w"
    by (simp add: replicate_append_same)
  then show ?case
    using Suc [of "CHR ''x'' # w"]
    by (simp add: isJsonSpace_def punctuation_def)
qed

lemma wordToken_run: "wordToken (CHR ''x'' # cs) = None"
  by (simp add: wordToken_def validNumber_def isDigit_def)

lemma readinessLine_run: "\<not> readinessLine (replicate n (CHR ''x''))"
proof (cases n)
  case 0
  then show ?thesis
    by (simp add: readinessLine_def JSON_parse_def)
next
  case (Suc k)
  have "rev (replicate k (CHR ''x'') @ [CHR ''x'']) = CHR ''x'' # replicate k (CHR ''x'')"
    by simp
  then have "lexJson (LWord [CHR ''x'']) [] (replicate k (CHR ''x'')) = None"
    unfolding lexJson_word_run by (simp only: wordToken_run option.case)
  then show ?thesis
    using Suc by (simp add: readinessLine_def JSON_parse_def isJsonSpace_def punctuation_def)
qed

lemma chunkReady_noise: "\<not> chunkReady noiseChunk"
  by (simp add: chunkReady_def noiseChunk_def splitNewline_run readinessLine_run)

lemma length_noise: "length noiseChunk = 1024"
  by (simp add: noiseChunk_def)

lemma delivered_replicate:
  "n + k * length c \<le> MAX_BUFFER \<Longrightarrow>
   delivered n (replicate k c @ rest) = replicate k c @ delivered (n + k * length c) rest"
  by (induction k arbitrary: n) (simp_all add: add.assoc)



lemma noise_run:
  "delivered 0 (replicate 1024 noiseChunk @ noiseChunk # rest)
     = replicate 1024 noiseChunk @ [noiseChunk]"
  "sum_list (map length (replicate 1024 noiseChunk @ noiseChunk # rest)) > MAX_BUFFER"
  "\<not> list_ex chunkReady (replicate 1024 noiseChunk @ [noiseChunk])"
proof -
  have fits: "0 + 1024 * length noiseChunk \<le> MAX_BUFFER"
    by (simp add: length_noise MAX_BUFFER_def)
  show "delivered 0 (replicate 1024 noiseChunk @ noiseChunk # rest)
     = replicate 1024 noiseChunk @ [noiseChunk]"
    unfolding delivered_replicate [OF fits]
    by (simp add: length_noise MAX_BUFFER_def)
  show "sum_list (map length (replicate 1024 noiseChunk @ noiseChunk # rest)) > MAX_BUFFER"
    by (simp add: sum_list_replicate length_noise MAX_BUFFER_def)
  show "\<not> list_ex chunkReady (replicate 1024 noiseChunk @ [noiseChunk])"
    by (simp add: list_ex_iff chunkReady_noise)
qed

text \<open>
  A run of 1025 chunks of 1 KiB that do not parse, then the sentinel: the sentinel is
  never delivered, and when the killed process closes the launch is rejected.
\<close>

lemma overflow_rejected_at_close:
  "outcome (processClose linuxHost 0 None (Some ''SIGTERM'')
      (feed 0 (replicate 1024 noiseChunk @ [noiseChunk, sentinelLine @ [CHR 0x0A]]) launchedA))
      callerA
     = Rejected MaxBufferExceeded"
proof -
  let ?loud = "replicate 1024 noiseChunk @ [noiseChunk, sentinelLine @ [CHR 0x0A]]"
  let ?m = "counted 0 ?loud launchedA"
  have deaf: "\<not> list_ex chunkReady (delivered 0 ?loud)"
    using noise_run(1,3) by simp
  have fed: "feed 0 ?loud launchedA = ?m"
    using feed_attached [OF launchedA_child(1,2,3,4), of ?loud] deaf
    by (simp add: launchedA_child(5) del: counted.simps delivered.simps)
  have big: "sum_list (map length ?loud) > MAX_BUFFER"
    by (simp add: sum_list_replicate length_noise MAX_BUFFER_def)
  have small: "stdoutLen (children launchedA ! 0) \<le> MAX_BUFFER"
    by (simp add: launchedA_child(5))
  have err: "execError (children ?m ! 0) = Some MaxBufferExceeded"
    using counted_overflow [OF launchedA_child(1,2,4) small, of ?loud] big
    by (simp add: launchedA_child(5) del: counted.simps)
  have len: "0 < length (children ?m)" and alive: "\<not> exited (children ?m ! 0)"
    and p: "promise (children ?m ! 0) = 0" and ps: "promises ?m = [Own Pending, Adopts 0]"
    by (simp_all add: counted_manager counted_child launchedA_fields del: counted.simps)
  have "promises (processClose linuxHost 0 None (Some ''SIGTERM'') ?m)
          = [Own (Rejected MaxBufferExceeded), Adopts 0]"
    unfolding processClose_unfold [OF len alive]
    using len
    by (simp add: closeHandler_def Let_def exithandlerError_def err execFileCallback_def
          p ps reject_def del: counted.simps)
  then show ?thesis
    by (simp add: fed outcome_def callerA_eq del: counted.simps)
qed




subsection \<open>Exit before readiness, cleanup and the query endpoint\<close>

text \<open>
  Claim C6 at the exit code 0. Session \<open>a\<close> is launched and its process closes with exit
  code 0 and no signal before any output: \<^verbatim>\<open>execFile\<close> calls back without an error, so
  the promise is neither resolved nor rejected. The caller's promise and the promise it
  adopts stay pending, the session's entries are removed, and no later event of that
  process changes the state. With exit code 1, or with a signal, the same launch is
  rejected with the exit information.
\<close>

theorem C6_clean_exit_stays_pending:
  "outcome (processClose linuxHost 0 (Some 0) None launchedA) callerA = Pending
   \<and> promises (processClose linuxHost 0 (Some 0) None launchedA) ! 0 = Own Pending
   \<and> processes (processClose linuxHost 0 (Some 0) None launchedA) = []
   \<and> loading (processClose linuxHost 0 (Some 0) None launchedA) = []
   \<and> stdoutData 0 chunk (processClose linuxHost 0 (Some 0) None launchedA)
       = processClose linuxHost 0 (Some 0) None launchedA
   \<and> stderrData 0 chunk (processClose linuxHost 0 (Some 0) None launchedA)
       = processClose linuxHost 0 (Some 0) None launchedA
   \<and> processClose linuxHost 0 code signal (processClose linuxHost 0 (Some 0) None launchedA)
       = processClose linuxHost 0 (Some 0) None launchedA
   \<and> outcome (processClose linuxHost 0 (Some 1) None launchedA) callerA
       = Rejected (CommandFailed (Some 1) None)
   \<and> outcome (processClose linuxHost 0 None (Some ''SIGTERM'') launchedA) callerA
       = Rejected (CommandFailed None (Some ''SIGTERM''))"
proof -
  have child: "0 < length (children launchedA)" "\<not> exited (children launchedA ! 0)"
    by (simp_all add: launchedA_fields)
  have i: "id_lo sessionA = ''a''"
    by (simp add: sessionA_def)
  have closed: "processClose linuxHost 0 code' signal' launchedA =
      (execFileCallback 0 (exitError code' signal')
         (launchedA\<lparr>children := (children launchedA)[0 := (children launchedA ! 0)\<lparr>exited := True\<rparr>]\<rparr>))
        \<lparr> processes := [], loading := [] \<rparr>"
    if "signal' \<noteq> Some ''SIGSEGV''" for code' signal'
    unfolding processClose_unfold [OF child]
    using that
    by (simp add: closeHandler_def Let_def execFileCallback_fields launchedA_fields i
          exithandlerError_def)
  have clean: "processClose linuxHost 0 (Some 0) None launchedA =
      launchedA\<lparr> children := [(children launchedA ! 0)\<lparr>exited := True\<rparr>],
                 processes := [], loading := [] \<rparr>"
    by (simp add: closed exitError_def execFileCallback_def launchedA_fields)
  have pending: "outcome (processClose linuxHost 0 (Some 0) None launchedA) callerA = Pending"
                "promises (processClose linuxHost 0 (Some 0) None launchedA) ! 0 = Own Pending"
    by (simp_all add: clean launchedA_fields outcome_def callerA_eq)
  have maps: "processes (processClose linuxHost 0 (Some 0) None launchedA) = []"
             "loading (processClose linuxHost 0 (Some 0) None launchedA) = []"
    by (simp_all add: clean)
  have gone: "exited (children (processClose linuxHost 0 (Some 0) None launchedA) ! 0)"
    by (simp add: clean)
  have quiet: "stdoutData 0 chunk (processClose linuxHost 0 (Some 0) None launchedA)
       = processClose linuxHost 0 (Some 0) None launchedA"
       "stderrData 0 chunk (processClose linuxHost 0 (Some 0) None launchedA)
       = processClose linuxHost 0 (Some 0) None launchedA"
    using gone by (simp_all add: stdoutData_def stderrData_def)
  have once: "processClose linuxHost 0 code signal (processClose linuxHost 0 (Some 0) None launchedA)
       = processClose linuxHost 0 (Some 0) None launchedA"
    using gone by (simp add: processClose_def)
  have failed: "outcome (processClose linuxHost 0 (Some 1) None launchedA) callerA
       = Rejected (CommandFailed (Some 1) None)"
    by (simp add: closed exitError_def execFileCallback_def reject_def launchedA_fields
          outcome_def callerA_eq)
  have killed: "outcome (processClose linuxHost 0 None (Some ''SIGTERM'') launchedA) callerA
       = Rejected (CommandFailed None (Some ''SIGTERM''))"
    by (simp add: closed exitError_def execFileCallback_def reject_def launchedA_fields
          outcome_def callerA_eq)
  from pending maps quiet once failed killed show ?thesis by simp
qed

text \<open>
  Claim C7, as the specification states it, fails: after session \<open>a\<close> became ready,
  \<^verbatim>\<open>cleanupProcess\<close> and \<^verbatim>\<open>close\<close> both leave its retained launch options in place.
\<close>

theorem C7_options_kept_counterexample:
  "map_of (processes readyA) ''a'' = Some 0
   \<and> map_of (launchOptions (cleanupProcess ''a'' readyA)) ''a'' = Some sessionA
   \<and> map_of (launchOptions (closeAll readyA)) ''a'' = Some sessionA"
  by (simp add: cleanupProcess_launchOptions closeAll_launchOptions readyA_fields)

text \<open>
  Claim C7, amended. After \<^verbatim>\<open>cleanupProcess(id)\<close> for a session with a process entry,
  the session has neither a process entry nor an in-flight entry; after \<^verbatim>\<open>close()\<close> both
  maps are empty. Neither operation changes the map of retained launch options.
\<close>

theorem C7_cleanup_removes_entries:
  "(map_of (processes m) i = Some h \<longrightarrow>
      map_of (processes (cleanupProcess i m)) i = None
      \<and> map_of (loading (cleanupProcess i m)) i = None)
   \<and> launchOptions (cleanupProcess i m) = launchOptions m
   \<and> processes (closeAll m) = []
   \<and> loading (closeAll m) = []
   \<and> launchOptions (closeAll m) = launchOptions m"
proof -
  have "map_of (processes (cleanupProcess i m)) i = None
        \<and> map_of (loading (cleanupProcess i m)) i = None"
    if "map_of (processes m) i = Some h"
    using that by (simp add: cleanupProcess_def Let_def split_def delete_conv')
  then show ?thesis
    by (simp add: cleanupProcess_launchOptions closeAll_launchOptions closeAll_def)
qed

theorem C7_cleanup_removes_entries_witness:
  "map_of (processes readyA) ''a'' = Some 0
   \<and> map_of (processes (cleanupProcess ''a'' readyA)) ''a'' = None
   \<and> map_of (loading (cleanupProcess ''a'' readyA)) ''a'' = None
   \<and> launchOptions (cleanupProcess ''a'' readyA) = [(''a'', sessionA)]
   \<and> launchOptions (closeAll readyA) = [(''a'', sessionA)]"
proof -
  have p: "map_of (processes readyA) ''a'' = Some 0"
    by (simp add: readyA_fields)
  from p C7_cleanup_removes_entries [of readyA "''a''" 0]
  show ?thesis
    by (simp add: readyA_fields)
qed

text \<open>
  Claim C10, as stated, fails in its parenthesis: launch options whose port is present
  but the empty string give a command line without \<^verbatim>\<open>--port\<close>.
\<close>

theorem C10_empty_port_counterexample:
  "port (sessionA\<lparr>port := Some []\<rparr>) = Some []
   \<and> args (children (snd (launchServer linuxHost (sessionA\<lparr>port := Some []\<rparr>) emptyManager)) ! 0)
       = [''-m'', ''/models/llama.gguf'', ''-c'', ''8192'', ''-ngl'', ''20'', ''-t'', ''6'',
          ''-b'', ''512'']"
proof -
  have fresh: "map_of (loading emptyManager) (id_lo (sessionA\<lparr>port := Some []\<rparr>)) = None"
    by (simp add: emptyManager_def)
  have "launchArgs (sessionA\<lparr>port := Some []\<rparr>) (detectHardware linuxHost)
          = take 10 (launchArgs sessionA (detectHardware linuxHost))"
    by (simp add: launchArgs_def sessionA_def)
  then show ?thesis
    unfolding launchServer_fresh [OF fresh]
    by (simp add: emptyManager_def getProfile_def launchArgs_A)
qed

text \<open>
  Claim C10, amended. In every state of the manager \<^verbatim>\<open>getModelParameters\<close> and
  \<^verbatim>\<open>encode\<close> send their requests to \<^verbatim>\<open>http://127.0.0.1:8080\<close>, and their results do not
  depend on the state, so not on any port in the launch options. The port only adds the
  two arguments \<^verbatim>\<open>--port\<close> and the port at the end of the command line, when it is present
  and not the empty string.
\<close>

theorem C10_fixed_endpoint:
  "url (getModelParametersRequest m) = ''http://127.0.0.1:8080/model.json''
   \<and> url (encodeRequest m content) = ''http://127.0.0.1:8080/tokenize''
   \<and> getModelParameters net m = getModelParameters net m'
   \<and> encode net m content = encode net m' content
   \<and> launchArgs opts prof
       = launchArgs (opts\<lparr>port := None\<rparr>) prof
         @ (case port opts of None \<Rightarrow> [] | Some p \<Rightarrow> if p = [] then [] else [''--port'', p])"
proof -
  have req: "getModelParametersRequest m = getModelParametersRequest m'"
            "encodeRequest m content = encodeRequest m' content"
    by (simp_all add: getModelParametersRequest_def encodeRequest_def)
  have urls: "url (getModelParametersRequest m) = ''http://127.0.0.1:8080/model.json''"
             "url (encodeRequest m content) = ''http://127.0.0.1:8080/tokenize''"
    by (simp_all add: getModelParametersRequest_def encodeRequest_def)
  have same: "getModelParameters net m = getModelParameters net m'"
             "encode net m content = encode net m' content"
    unfolding getModelParameters_def encode_def req by (rule refl)+
  have cmd: "launchArgs opts prof
       = launchArgs (opts\<lparr>port := None\<rparr>) prof
         @ (case port opts of None \<Rightarrow> [] | Some p \<Rightarrow> if p = [] then [] else [''--port'', p])"
    by (simp add: launchArgs_def split: option.splits)
  from urls same cmd show ?thesis by simp
qed

end
